theory Spec2Isabelle
  imports Complex_Main
begin

section \<open>JavaScript values used by olcs.FeatureConverter\<close>

text \<open>
  A JavaScript number is a real or \<open>NaN\<close> (rounding and the infinities play no part in
  the properties below). \<open>Math.min\<close> and \<open>+\<close> propagate \<open>NaN\<close>, every comparison with
  \<open>NaN\<close> is false, and \<open>x != 0\<close> is true of \<open>NaN\<close>.
\<close>

datatype number = Num real | NaN

fun js_add :: "number \<Rightarrow> number \<Rightarrow> number" where
  "js_add (Num a) (Num b) = Num (a + b)"
| "js_add _ _ = NaN"

fun Math_min :: "number \<Rightarrow> number \<Rightarrow> number" where
  "Math_min (Num a) (Num b) = Num (min a b)"
| "Math_min _ _ = NaN"

text \<open>The number an argument of \<open>Math.min\<close> is converted to: \<open>undefined\<close> becomes
  \<open>NaN\<close>.\<close>

fun ToNumber :: "number option \<Rightarrow> number" where
  "ToNumber None = NaN"
| "ToNumber (Some x) = x"

fun js_greater :: "number \<Rightarrow> number \<Rightarrow> bool" where
  "js_greater (Num a) (Num b) = (b < a)"
| "js_greater _ _ = False"

fun js_nonzero :: "number \<Rightarrow> bool" where
  "js_nonzero (Num a) = (a \<noteq> 0)"
| "js_nonzero NaN = True"

text \<open>A value that may be \<open>undefined\<close> or \<open>null\<close>, as \<open>goog.isDef\<close> and
  \<open>goog.isDefAndNotNull\<close> tell them apart.\<close>

datatype 'a jsv = Undefined | Null | Def 'a

fun isDef :: "'a jsv \<Rightarrow> bool" where
  "isDef Undefined = False"
| "isDef _ = True"

fun isDefAndNotNull :: "'a jsv \<Rightarrow> bool" where
  "isDefAndNotNull (Def _) = True"
| "isDefAndNotNull _ = False"

text \<open>What the code throws: a failed \<open>goog.asserts\<close> assertion (assertions enabled), a
  \<open>TypeError\<close> of the language, or an explicit \<open>throw new Error(...)\<close>.\<close>

datatype error = AssertionError string | TypeError string | Error string

section \<open>The OpenLayers side: coordinates, geometries, styles\<close>

type_synonym coordinate = "number list"

datatype projection = Projection string

datatype geometry =
    Point coordinate
  | LineString "coordinate list"
  | LinearRing "coordinate list"
  | Polygon "coordinate list list"
  | Circle coordinate number
  | MultiPoint "coordinate list"
  | MultiLineString "coordinate list list"
  | MultiPolygon "coordinate list list list"
  | GeometryCollection "geometry list"

fun getType :: "geometry \<Rightarrow> string" where
  "getType (Point _) = ''Point''"
| "getType (LineString _) = ''LineString''"
| "getType (LinearRing _) = ''LinearRing''"
| "getType (Polygon _) = ''Polygon''"
| "getType (Circle _ _) = ''Circle''"
| "getType (MultiPoint _) = ''MultiPoint''"
| "getType (MultiLineString _) = ''MultiLineString''"
| "getType (MultiPolygon _) = ''MultiPolygon''"
| "getType (GeometryCollection _) = ''GeometryCollection''"

text \<open>\<open>getFirstCoordinate\<close> of an \<open>ol.geom.SimpleGeometry\<close>: the first coordinate of the
  flat coordinates, the empty array when there is none. A geometry collection is not a
  simple geometry.\<close>

fun first_or_empty :: "coordinate list \<Rightarrow> coordinate" where
  "first_or_empty [] = []"
| "first_or_empty (c # _) = c"

fun getFirstCoordinate :: "geometry \<Rightarrow> coordinate option" where
  "getFirstCoordinate (Point c) = Some c"
| "getFirstCoordinate (LineString cs) = Some (first_or_empty cs)"
| "getFirstCoordinate (LinearRing cs) = Some (first_or_empty cs)"
| "getFirstCoordinate (Polygon rs) = Some (first_or_empty (concat rs))"
| "getFirstCoordinate (Circle c _) = Some c"
| "getFirstCoordinate (MultiPoint cs) = Some (first_or_empty cs)"
| "getFirstCoordinate (MultiLineString ls) = Some (first_or_empty (concat ls))"
| "getFirstCoordinate (MultiPolygon ps) = Some (first_or_empty (concat (concat ps)))"
| "getFirstCoordinate (GeometryCollection _) = None"

text \<open>An OpenLayers colour is a CSS string or an array of channels; \<open>null\<close> and the
  empty string are falsy.\<close>

datatype olcolor = ColorString string | ColorArray "number list"

fun truthy_color :: "olcolor option \<Rightarrow> bool" where
  "truthy_color None = False"
| "truthy_color (Some (ColorString s)) = (s \<noteq> [])"
| "truthy_color (Some (ColorArray _)) = True"

fun truthy_string :: "string option \<Rightarrow> bool" where
  "truthy_string None = False"
| "truthy_string (Some s) = (s \<noteq> [])"

record fill =
  fill_getColor :: "olcolor option"

text \<open>A stroke has a colour, a width (\<open>undefined\<close> when the stroke was given none) and an
  optional dash pattern (\<open>getLineDash()\<close> is an array, truthy even when empty, or
  \<open>null\<close>).\<close>

record stroke =
  stroke_getColor :: "olcolor option"
  getWidth :: "number option"
  getLineDash :: "number list option"

text \<open>\<open>ol.style.Style\<close> and \<open>ol.style.Text\<close> both answer \<open>getFill()\<close> and
  \<open>getStroke()\<close>; the functions that accept either take the common part.\<close>

record fillstroke =
  getFill :: "fill option"
  getStroke :: "stroke option"

record text_style = fillstroke +
  text_getText :: "string option"
  getOffsetX :: number
  getOffsetY :: number
  getFont :: "string option"
  getTextAlign :: "string option"
  getTextBaseline :: "string option"

text \<open>The element that \<open>imageStyle.getImage(1)\<close> returns: \<open>null\<close>, a canvas, an
  \<open>Image\<close> (\<open>HTMLImageElement\<close>) with the four properties \<open>isImageLoaded\<close> reads, or
  an object of any other kind.\<close>

datatype image_element =
    NullImage
  | CanvasElement string
  | ImageElement string nat nat bool
  | OtherElement string

record image_style =
  image_getImage :: image_element
  getOpacity :: "number option"

record style = fillstroke +
  getImage :: "image_style option"
  getText :: "text_style option"

section \<open>The Cesium side and the helpers of olcs.core\<close>

datatype cartesian3 = Cartesian3 number number number

datatype cscolor = Color number number number number

text \<open>
  Modelled from the spec: the module \<open>olcs.core\<close> (conversion of coordinates to
  Cartesian positions, colour conversion, the coordinate transform behind
  \<open>olGeometryCloneTo4326\<close>), \<open>Cesium.Cartesian3.distance\<close>,
  \<open>ol.extent.getCenter(geometry.getExtent())\<close>, the \<open>altitudeMode\<close> property of a
  geometry and the scene's \<open>maximumAliasedLineWidth\<close> are not part of the converter's
  source file. They are parameters of every definition below, so each theorem holds for
  whatever these functions compute.
\<close>

record env =
  transformTo4326 :: "projection \<Rightarrow> coordinate \<Rightarrow> coordinate"
  radiusTo4326 :: "projection \<Rightarrow> coordinate \<Rightarrow> number \<Rightarrow> number"
  ol4326CoordinateToCesiumCartesian :: "coordinate \<Rightarrow> cartesian3"
  ol4326CoordinateArrayToCsCartesians :: "coordinate list \<Rightarrow> cartesian3 list"
  convertColorToCesium :: "olcolor option \<Rightarrow> cscolor"
  Cartesian3_distance :: "cartesian3 \<Rightarrow> cartesian3 \<Rightarrow> number"
  extent_getCenter :: "geometry \<Rightarrow> number \<times> number"
  geometry_altitudeMode :: "geometry \<Rightarrow> string option"
  maximumAliasedLineWidth :: number

text \<open>
  Modelled from the spec: \<open>olcs.core.olGeometryCloneTo4326\<close> is missing from the source
  file; the spec describes it as a deep copy of the geometry with all coordinates
  transformed into the geographic frame, the source geometry left as it is. The copy has
  the kind and the shape of its source.
\<close>

fun olGeometryCloneTo4326 :: "env \<Rightarrow> geometry \<Rightarrow> projection \<Rightarrow> geometry" where
  "olGeometryCloneTo4326 e (Point c) p = Point (transformTo4326 e p c)"
| "olGeometryCloneTo4326 e (LineString cs) p = LineString (map (transformTo4326 e p) cs)"
| "olGeometryCloneTo4326 e (LinearRing cs) p = LinearRing (map (transformTo4326 e p) cs)"
| "olGeometryCloneTo4326 e (Polygon rs) p = Polygon (map (map (transformTo4326 e p)) rs)"
| "olGeometryCloneTo4326 e (Circle c r) p = Circle (transformTo4326 e p c) (radiusTo4326 e p c r)"
| "olGeometryCloneTo4326 e (MultiPoint cs) p = MultiPoint (map (transformTo4326 e p) cs)"
| "olGeometryCloneTo4326 e (MultiLineString ls) p =
     MultiLineString (map (map (transformTo4326 e p)) ls)"
| "olGeometryCloneTo4326 e (MultiPolygon ps) p =
     MultiPolygon (map (map (map (transformTo4326 e p))) ps)"
| "olGeometryCloneTo4326 e (GeometryCollection gs) p =
     GeometryCollection (map (\<lambda>g. olGeometryCloneTo4326 e g p) gs)"

datatype material =
    StripeMaterial bool number cscolor cscolor
  | ColorMaterial cscolor

section \<open>Colour, width and material of a style\<close>

definition extractColorFromOlStyle ::
  "env \<Rightarrow> 'a fillstroke_scheme \<Rightarrow> bool \<Rightarrow> cscolor" where
  "extractColorFromOlStyle e st outline =
     (let fillColor = (case getFill st of Some f \<Rightarrow> fill_getColor f | None \<Rightarrow> None);
          strokeColor = (case getStroke st of Some s \<Rightarrow> stroke_getColor s | None \<Rightarrow> None);
          olColor = (if truthy_color strokeColor \<and> outline then strokeColor
                     else if truthy_color fillColor then fillColor
                     else Some (ColorString ''black''))
      in convertColorToCesium e olColor)"

definition extractLineWidthFromOlStyle :: "env \<Rightarrow> 'a fillstroke_scheme \<Rightarrow> number" where
  "extractLineWidthFromOlStyle e st =
     (let width = (case getStroke st of Some s \<Rightarrow> getWidth s | None \<Rightarrow> Some (Num 1))
      in Math_min (ToNumber width) (maximumAliasedLineWidth e))"

definition olStyleToCesium :: "env \<Rightarrow> style \<Rightarrow> bool \<Rightarrow> material option" where
  "olStyleToCesium e st outline =
     (case (getFill st, getStroke st) of (fillv, strokev) \<Rightarrow>
        if (outline \<and> strokev = None) \<or> (\<not> outline \<and> fillv = None) then None
        else
          let color = convertColorToCesium e
                (if outline then stroke_getColor (the strokev) else fill_getColor (the fillv))
          in if outline \<and> getLineDash (the strokev) \<noteq> None
             then Some (StripeMaterial False (Num 500) color (Color (Num 0) (Num 0) (Num 0) (Num 0)))
             else Some (ColorMaterial color))"

section \<open>Features, layers and the plain style of a feature\<close>

record feature =
  getUid :: nat
  getGeometry :: "geometry option"
  feature_getStyleFunction :: "(number \<Rightarrow> style list jsv) option"
  feature_altitudeMode :: "string option"

record layer =
  getFeatures :: "feature option list"
  layer_getStyleFunction :: "(feature \<Rightarrow> number \<Rightarrow> style list jsv) option"
  layer_altitudeMode :: "string option"

text \<open>\<open>style[0]\<close> of an array: \<open>undefined\<close> when the array is empty.\<close>

fun first_style :: "style list \<Rightarrow> style jsv" where
  "first_style [] = Undefined"
| "first_style (s # _) = Def s"

definition computePlainStyle ::
  "layer \<Rightarrow> feature \<Rightarrow> (feature \<Rightarrow> number \<Rightarrow> style list jsv) option \<Rightarrow> number
     \<Rightarrow> error + style jsv" where
  "computePlainStyle lyr feat fallbackStyle resolution =
     (let style0 = (case feature_getStyleFunction feat of
                      Some featureStyle \<Rightarrow> featureStyle resolution
                    | None \<Rightarrow> Undefined);
          style1 = (case fallbackStyle of
                      Some fb \<Rightarrow> if \<not> isDefAndNotNull style0 then fb feat resolution else style0
                    | None \<Rightarrow> style0)
      in if \<not> isDef style1 then Inr Null
         else case style1 of
                Def arr \<Rightarrow> Inr (first_style arr)
              | _ \<Rightarrow> Inl (AssertionError ''Assertion failed''))"

section \<open>Renderables\<close>

datatype heightReference = HR_NONE | CLAMP_TO_GROUND | RELATIVE_TO_GROUND

datatype horizontalOrigin = HO_CENTER | HO_LEFT | HO_RIGHT

datatype verticalOrigin = VO_TOP | VO_CENTER | VO_BOTTOM

datatype labelStyle = FILL | OUTLINE | FILL_AND_OUTLINE

text \<open>
  The polygon hierarchy is built by mutating objects through two variables that start
  as aliases of one object, so the objects live in a store: a list of nodes, the address
  of a node being its index. \<open>holes\<close> of a node is the address of another node (the code
  stores one object there, not an array).
\<close>

record hnode =
  hn_positions :: "cartesian3 list option"
  hn_holes :: "nat option"

text \<open>The object graph reachable from an address, as the geometry constructor that is
  handed the address sees it. The fuel is the size of the store.\<close>

datatype hierarchy = Hierarchy "cartesian3 list option" "hierarchy option"

fun object_at :: "nat \<Rightarrow> hnode list \<Rightarrow> nat \<Rightarrow> hierarchy" where
  "object_at 0 h a = Hierarchy (if a < length h then hn_positions (h ! a) else None) None"
| "object_at (Suc n) h a =
     (if a < length h
      then Hierarchy (hn_positions (h ! a))
             (case hn_holes (h ! a) of None \<Rightarrow> None | Some b \<Rightarrow> Some (object_at n h b))
      else Hierarchy None None)"

fun ring_boundaries :: "hierarchy \<Rightarrow> cartesian3 list list" where
  "ring_boundaries (Hierarchy ps hs) =
     (case ps of None \<Rightarrow> [] | Some p \<Rightarrow> [p]) @
     (case hs of None \<Rightarrow> [] | Some h \<Rightarrow> ring_boundaries h)"

fun hole_entries :: "hierarchy \<Rightarrow> hierarchy list" where
  "hole_entries (Hierarchy ps hs) =
     (case hs of None \<Rightarrow> [] | Some h \<Rightarrow> h # hole_entries h)"

datatype csgeometry =
    CircleGeometry cartesian3 number number
  | CircleOutlineGeometry cartesian3 number number number
  | PolylineGeometry "cartesian3 list" number
  | PolygonGeometry hierarchy bool
  | PolygonOutlineGeometry hierarchy bool

datatype geometryInstance = GeometryInstance csgeometry "cscolor option"

datatype appearance =
    PerInstanceColorAppearance bool "number option"
  | PolylineMaterialAppearance "material option"

record label_options =
  lo_position :: cartesian3
  lo_text :: string
  lo_heightReference :: heightReference
  lo_pixelOffset :: "(number \<times> number) option"
  lo_font :: "string option"
  lo_fillColor :: "cscolor option"
  lo_outlineWidth :: "number option"
  lo_outlineColor :: "cscolor option"
  lo_style :: "labelStyle option"
  lo_horizontalOrigin :: "horizontalOrigin option"
  lo_verticalOrigin :: "verticalOrigin option"

record billboard_options =
  bo_image :: image_element
  bo_color :: "cscolor option"
  bo_heightReference :: heightReference
  bo_verticalOrigin :: verticalOrigin
  bo_position :: cartesian3

text \<open>Every renderer object can be given the two properties \<open>olLayer\<close> and
  \<open>olFeature\<close>; a freshly constructed one has neither.\<close>

type_synonym pickref = "layer \<times> feature"

datatype renderable =
    Primitive "pickref option" "(geometryInstance \<times> appearance) option"
  | PrimitiveCollection "pickref option" "renderable list"
  | LabelCollection "pickref option" "renderable list"
  | Label "pickref option" label_options
  | Billboard "pickref option" billboard_options

fun pickingReference :: "renderable \<Rightarrow> pickref option" where
  "pickingReference (Primitive r _) = r"
| "pickingReference (PrimitiveCollection r _) = r"
| "pickingReference (LabelCollection r _) = r"
| "pickingReference (Label r _) = r"
| "pickingReference (Billboard r _) = r"

fun setReferenceForPicking :: "layer \<Rightarrow> feature \<Rightarrow> renderable \<Rightarrow> renderable" where
  "setReferenceForPicking lyr feat (Primitive _ g) = Primitive (Some (lyr, feat)) g"
| "setReferenceForPicking lyr feat (PrimitiveCollection _ xs) =
     PrimitiveCollection (Some (lyr, feat)) xs"
| "setReferenceForPicking lyr feat (LabelCollection _ xs) = LabelCollection (Some (lyr, feat)) xs"
| "setReferenceForPicking lyr feat (Label _ opts) = Label (Some (lyr, feat)) opts"
| "setReferenceForPicking lyr feat (Billboard _ opts) = Billboard (Some (lyr, feat)) opts"

text \<open>\<open>collection.add(x)\<close>.\<close>

fun collection_add :: "renderable \<Rightarrow> renderable \<Rightarrow> renderable" where
  "collection_add (PrimitiveCollection r xs) x = PrimitiveCollection r (xs @ [x])"
| "collection_add (LabelCollection r xs) x = LabelCollection r (xs @ [x])"
| "collection_add c x = c"

fun collection_members :: "renderable \<Rightarrow> renderable list" where
  "collection_members (PrimitiveCollection _ xs) = xs"
| "collection_members (LabelCollection _ xs) = xs"
| "collection_members _ = []"

section \<open>Primitives with a colour, fill and outline, text\<close>

definition createColoredPrimitive ::
  "layer \<Rightarrow> feature \<Rightarrow> csgeometry \<Rightarrow> cscolor \<Rightarrow> number option \<Rightarrow> renderable" where
  "createColoredPrimitive lyr feat geom color opt_lineWidth =
     (let appearance = PerInstanceColorAppearance True opt_lineWidth;
          instances = GeometryInstance geom (Some color);
          primitive = Primitive None (Some (instances, appearance))
      in setReferenceForPicking lyr feat primitive)"

definition wrapFillAndOutlineGeometries ::
  "env \<Rightarrow> layer \<Rightarrow> feature \<Rightarrow> csgeometry \<Rightarrow> csgeometry \<Rightarrow> style \<Rightarrow> renderable" where
  "wrapFillAndOutlineGeometries e lyr feat fillGeometry outlineGeometry olStyle =
     (let fillColor = extractColorFromOlStyle e olStyle False;
          outlineColor = extractColorFromOlStyle e olStyle True;
          primitives0 = PrimitiveCollection None [];
          primitives1 =
            (if getFill olStyle \<noteq> None
             then collection_add primitives0
                    (createColoredPrimitive lyr feat fillGeometry fillColor None)
             else primitives0)
      in if getStroke olStyle \<noteq> None
         then collection_add primitives1
                (createColoredPrimitive lyr feat outlineGeometry outlineColor
                   (Some (extractLineWidthFromOlStyle e olStyle)))
         else primitives1)"

definition getHeightReference :: "env \<Rightarrow> layer \<Rightarrow> feature \<Rightarrow> geometry \<Rightarrow> heightReference" where
  "getHeightReference e lyr feat geom =
     (let altitudeMode0 = geometry_altitudeMode e geom;
          altitudeMode1 = (if altitudeMode0 = None then feature_altitudeMode feat else altitudeMode0);
          altitudeMode = (if altitudeMode1 = None then layer_altitudeMode lyr else altitudeMode1)
      in if altitudeMode = Some ''clampToGround'' then CLAMP_TO_GROUND
         else if altitudeMode = Some ''relativeToGround'' then RELATIVE_TO_GROUND
         else HR_NONE)"

definition textAlignToOrigin :: "string option \<Rightarrow> error + horizontalOrigin option" where
  "textAlignToOrigin a =
     (if truthy_string a then
        (if a = Some ''center'' then Inr (Some HO_CENTER)
         else if a = Some ''left'' then Inr (Some HO_LEFT)
         else if a = Some ''right'' then Inr (Some HO_RIGHT)
         else Inl (AssertionError ''unhandled text align''))
      else Inr None)"

definition textBaselineToOrigin :: "string option \<Rightarrow> error + verticalOrigin option" where
  "textBaselineToOrigin b =
     (if truthy_string b then
        (if b = Some ''top'' then Inr (Some VO_TOP)
         else if b = Some ''middle'' then Inr (Some VO_CENTER)
         else if b = Some ''bottom'' then Inr (Some VO_BOTTOM)
         else if b = Some ''alphabetic'' then Inr (Some VO_TOP)
         else if b = Some ''hanging'' then Inr (Some VO_BOTTOM)
         else Inl (AssertionError ''unhandled baseline''))
      else Inr None)"

definition olGeometry4326TextPartToCesium ::
  "env \<Rightarrow> layer \<Rightarrow> feature \<Rightarrow> geometry \<Rightarrow> text_style \<Rightarrow> error + renderable" where
  "olGeometry4326TextPartToCesium e lyr feat geom st =
     (case text_getText st of
        None \<Rightarrow> Inl (AssertionError ''Assertion failed'')
      | Some txt \<Rightarrow>
          (case textAlignToOrigin (getTextAlign st) of
             Inl err \<Rightarrow> Inl err
           | Inr horizontalOrigin \<Rightarrow>
               (case textBaselineToOrigin (getTextBaseline st) of
                  Inl err \<Rightarrow> Inl err
                | Inr verticalOrigin \<Rightarrow>
                    let labels = LabelCollection None [];
                        extentCenter =
                          (case extent_getCenter e geom of (cx, cy) \<Rightarrow>
                             (case getFirstCoordinate geom of
                                Some first \<Rightarrow>
                                  [cx, cy, if length first = 3 then first ! 2 else Num 0]
                              | None \<Rightarrow> [cx, cy]));
                        hasFill = (getFill st \<noteq> None);
                        hasStroke = (getStroke st \<noteq> None);
                        options = \<lparr>
                          lo_position = ol4326CoordinateToCesiumCartesian e extentCenter,
                          lo_text = txt,
                          lo_heightReference = getHeightReference e lyr feat geom,
                          lo_pixelOffset =
                            (if js_nonzero (getOffsetX st) \<and> js_nonzero (getOffsetY st)
                             then Some (getOffsetX st, getOffsetY st) else None),
                          lo_font = getFont st,
                          lo_fillColor =
                            (if hasFill then Some (extractColorFromOlStyle e st False) else None),
                          lo_outlineWidth =
                            (if hasStroke then Some (extractLineWidthFromOlStyle e st) else None),
                          lo_outlineColor =
                            (if hasStroke then Some (extractColorFromOlStyle e st True) else None),
                          lo_style =
                            (if hasFill \<and> hasStroke then Some FILL_AND_OUTLINE
                             else if hasStroke then Some OUTLINE
                             else if hasFill then Some FILL
                             else None),
                          lo_horizontalOrigin = horizontalOrigin,
                          lo_verticalOrigin = verticalOrigin \<rparr>;
                        l = setReferenceForPicking lyr feat (Label None options)
                    in Inr (collection_add labels l))))"

definition addTextStyle ::
  "env \<Rightarrow> layer \<Rightarrow> feature \<Rightarrow> geometry \<Rightarrow> style \<Rightarrow> renderable \<Rightarrow> error + renderable" where
  "addTextStyle e lyr feat geom st primitive =
     (let primitives =
            (case primitive of
               PrimitiveCollection _ _ \<Rightarrow> primitive
             | _ \<Rightarrow> collection_add (PrimitiveCollection None []) primitive)
      in case getText st of
           None \<Rightarrow> Inr primitives
         | Some txt \<Rightarrow>
             (case olGeometry4326TextPartToCesium e lyr feat geom txt of
                Inl err \<Rightarrow> Inl err
              | Inr label \<Rightarrow> Inr (collection_add primitives label)))"

section \<open>Circle, line string and polygon\<close>

text \<open>\<open>point[0] += radius\<close> on a copy of the centre.\<close>

fun add_to_first :: "coordinate \<Rightarrow> number \<Rightarrow> coordinate" where
  "add_to_first [] r = [NaN]"
| "add_to_first (x # xs) r = js_add x r # xs"

definition olCircleGeometryToCesium ::
  "env \<Rightarrow> layer \<Rightarrow> feature \<Rightarrow> geometry \<Rightarrow> projection \<Rightarrow> style \<Rightarrow> error + renderable" where
  "olCircleGeometryToCesium e lyr feat olGeometry0 proj olStyle =
     (case olGeometryCloneTo4326 e olGeometry0 proj of
        Circle center0 radius0 \<Rightarrow>
          let height = (if length center0 = 3 then center0 ! 2 else Num 0);
              point0 = add_to_first center0 radius0;
              center = ol4326CoordinateToCesiumCartesian e center0;
              point = ol4326CoordinateToCesiumCartesian e point0;
              radius = Cartesian3_distance e center point;
              fillGeometry = CircleGeometry center radius height;
              outlineGeometry = CircleOutlineGeometry center radius height height;
              primitives = wrapFillAndOutlineGeometries e lyr feat fillGeometry outlineGeometry olStyle
          in addTextStyle e lyr feat (Circle center0 radius0) olStyle primitives
      | _ \<Rightarrow> Inl (AssertionError ''Assertion failed''))"

definition olLineStringGeometryToCesium ::
  "env \<Rightarrow> layer \<Rightarrow> feature \<Rightarrow> geometry \<Rightarrow> projection \<Rightarrow> style \<Rightarrow> error + renderable" where
  "olLineStringGeometryToCesium e lyr feat olGeometry0 proj olStyle =
     (case olGeometryCloneTo4326 e olGeometry0 proj of
        LineString coords \<Rightarrow>
          let positions = ol4326CoordinateArrayToCsCartesians e coords;
              appearance = PolylineMaterialAppearance (olStyleToCesium e olStyle True);
              outlineGeometry = PolylineGeometry positions (extractLineWidthFromOlStyle e olStyle);
              outlinePrimitive = setReferenceForPicking lyr feat
                (Primitive None (Some (GeometryInstance outlineGeometry None, appearance)))
          in addTextStyle e lyr feat (LineString coords) olStyle outlinePrimitive
      | _ \<Rightarrow> Inl (AssertionError ''Assertion failed''))"

text \<open>
  The loop over the rings. \<open>h\<close> is the store and \<open>hierarchy\<close> the address the variable
  of that name holds; \<open>polygonHierarchy\<close> keeps address 0 throughout. The first ring
  sets \<open>positions\<close> of the node at \<open>hierarchy\<close>; every later ring allocates a node,
  stores its address in \<open>holes\<close> of the node at \<open>hierarchy\<close>, and moves \<open>hierarchy\<close> to
  the new node.
\<close>

fun polygon_rings_loop ::
  "env \<Rightarrow> coordinate list list \<Rightarrow> nat \<Rightarrow> hnode list \<Rightarrow> nat \<Rightarrow> error + (hnode list \<times> nat)" where
  "polygon_rings_loop e [] i h hierarchy = Inr (h, hierarchy)"
| "polygon_rings_loop e (olPos # rest) i h hierarchy =
     (let positions = ol4326CoordinateArrayToCsCartesians e olPos
      in if positions = [] then Inl (AssertionError ''Assertion failed'')
         else if i = 0
         then polygon_rings_loop e rest (Suc i)
                (h[hierarchy := (h ! hierarchy)\<lparr>hn_positions := Some positions\<rparr>]) hierarchy
         else let fresh = length h;
                  h' = h[hierarchy := (h ! hierarchy)\<lparr>hn_holes := Some fresh\<rparr>]
                         @ [\<lparr>hn_positions = Some positions, hn_holes = None\<rparr>]
              in polygon_rings_loop e rest (Suc i) h' fresh)"

text \<open>The two geometries the polygon converter constructs: the fill geometry from
  \<open>polygonHierarchy\<close>, the outline geometry from \<open>hierarchy\<close>.\<close>

definition polygon_geometries ::
  "env \<Rightarrow> coordinate list list \<Rightarrow> error + (csgeometry \<times> csgeometry)" where
  "polygon_geometries e rings =
     (if rings = [] then Inl (AssertionError ''Assertion failed'')
      else case polygon_rings_loop e rings 0 [\<lparr>hn_positions = None, hn_holes = None\<rparr>] 0 of
             Inl err \<Rightarrow> Inl err
           | Inr (h, hierarchy) \<Rightarrow>
               Inr (PolygonGeometry (object_at (length h) h 0) True,
                    PolygonOutlineGeometry (object_at (length h) h hierarchy) True))"

definition olPolygonGeometryToCesium ::
  "env \<Rightarrow> layer \<Rightarrow> feature \<Rightarrow> geometry \<Rightarrow> projection \<Rightarrow> style \<Rightarrow> error + renderable" where
  "olPolygonGeometryToCesium e lyr feat olGeometry0 proj olStyle =
     (case olGeometryCloneTo4326 e olGeometry0 proj of
        Polygon rings \<Rightarrow>
          (case polygon_geometries e rings of
             Inl err \<Rightarrow> Inl err
           | Inr (fillGeometry, outlineGeometry) \<Rightarrow>
               let primitives =
                     wrapFillAndOutlineGeometries e lyr feat fillGeometry outlineGeometry olStyle
               in addTextStyle e lyr feat (Polygon rings) olStyle primitives)
      | _ \<Rightarrow> Inl (AssertionError ''Assertion failed''))"

section \<open>Conversion context, billboards and deferred creation\<close>

text \<open>
  The only function passed as \<open>opt_newBillboardCallback\<close> in this file is the closure
  \<open>newBillboardAddedCallback\<close> of \<open>olFeatureToCesium\<close>, which stores the billboard in
  \<open>context.featureToCesiumMap\<close> under the uid of the feature it has captured.
\<close>

datatype callback = NewBillboardAddedCallback feature

text \<open>The variables \<open>reallyCreateBillboard\<close> has captured when it runs.\<close>

record closure =
  cl_layer :: layer
  cl_feature :: feature
  cl_geometry :: geometry
  cl_style :: style
  cl_imageStyle :: image_style
  cl_image :: image_element
  cl_callback :: "callback option"

text \<open>
  Modelled from the spec: the conversion context is created by \<open>olcs.core.OlLayerPrimitive\<close>,
  which is not in the source file; per the spec it holds the target projection, a
  container for billboards and a map from feature identity to renderable. The state
  threaded through a conversion is that context together with the one-shot \<open>load\<close>
  listeners registered with \<open>goog.events.listenOnce\<close> and not fired yet. A function that
  throws yields the error alone.
\<close>

record state =
  ctx_projection :: projection
  ctx_billboards :: "renderable list"
  featureToCesiumMap :: "nat \<rightharpoonup> renderable"
  listeners :: "closure list"

fun call_callback :: "callback option \<Rightarrow> renderable \<Rightarrow> state \<Rightarrow> state" where
  "call_callback None bb s = s"
| "call_callback (Some (NewBillboardAddedCallback feat)) bb s =
     s\<lparr>featureToCesiumMap := (featureToCesiumMap s)(getUid feat \<mapsto> bb)\<rparr>"

definition csAddBillboard ::
  "billboard_options \<Rightarrow> layer \<Rightarrow> feature \<Rightarrow> state \<Rightarrow> renderable \<times> state" where
  "csAddBillboard bbOptions lyr feat s =
     (let bb = setReferenceForPicking lyr feat (Billboard None bbOptions)
      in (bb, s\<lparr>ctx_billboards := ctx_billboards s @ [bb]\<rparr>))"

fun isImage :: "image_element \<Rightarrow> bool" where
  "isImage (ImageElement _ _ _ _) = True"
| "isImage _ = False"

fun isCanvas :: "image_element \<Rightarrow> bool" where
  "isCanvas (CanvasElement _) = True"
| "isCanvas _ = False"

fun isImageLoaded :: "image_element \<Rightarrow> bool" where
  "isImageLoaded (ImageElement src naturalHeight naturalWidth completed) =
     (src \<noteq> [] \<and> naturalHeight \<noteq> 0 \<and> naturalWidth \<noteq> 0 \<and> completed)"
| "isImageLoaded _ = False"

text \<open>\<open>geometry.getCoordinates()\<close> of the point that was cloned.\<close>

fun point_getCoordinates :: "geometry \<Rightarrow> coordinate" where
  "point_getCoordinates (Point c) = c"
| "point_getCoordinates _ = []"

definition reallyCreateBillboard :: "env \<Rightarrow> closure \<Rightarrow> state \<Rightarrow> state" where
  "reallyCreateBillboard e cl s =
     (if cl_image cl = NullImage then s
      else if \<not> (isCanvas (cl_image cl) \<or> isImage (cl_image cl)) then s
      else
        let center = point_getCoordinates (cl_geometry cl);
            position = ol4326CoordinateToCesiumCartesian e center;
            color = (case getOpacity (cl_imageStyle cl) of
                       Some opacity \<Rightarrow> Some (Color (Num 1) (Num 1) (Num 1) opacity)
                     | None \<Rightarrow> None);
            heightReference = getHeightReference e (cl_layer cl) (cl_feature cl) (cl_geometry cl);
            bbOptions = \<lparr> bo_image = cl_image cl, bo_color = color,
                          bo_heightReference = heightReference,
                          bo_verticalOrigin = VO_BOTTOM, bo_position = position \<rparr>
        in case csAddBillboard bbOptions (cl_layer cl) (cl_feature cl) s of
             (bb, s') \<Rightarrow> call_callback (cl_callback cl) bb s')"

text \<open>The \<open>load\<close> event reaches the listener registered at position \<open>i\<close>: it is
  removed (it was registered with \<open>listenOnce\<close>) and run. Nothing happens when there is
  no such listener.\<close>

definition fire_load :: "env \<Rightarrow> nat \<Rightarrow> state \<Rightarrow> state" where
  "fire_load e i s =
     (if i < length (listeners s)
      then reallyCreateBillboard e (listeners s ! i)
             (s\<lparr>listeners := take i (listeners s) @ drop (Suc i) (listeners s)\<rparr>)
      else s)"

definition olPointGeometryToCesium ::
  "env \<Rightarrow> layer \<Rightarrow> feature \<Rightarrow> geometry \<Rightarrow> projection \<Rightarrow> style \<Rightarrow> callback option
     \<Rightarrow> state \<Rightarrow> error + (renderable option \<times> state)" where
  "olPointGeometryToCesium e lyr feat geometry0 proj st opt_newBillboardCallback s =
     (if getType geometry0 \<noteq> ''Point'' then Inl (AssertionError ''Assertion failed'')
      else
        let geom = olGeometryCloneTo4326 e geometry0 proj
        in case getImage st of
             None \<Rightarrow> Inl (TypeError ''imageStyle is null'')
           | Some imageStyle \<Rightarrow>
               let image = image_getImage imageStyle;
                   cl = \<lparr> cl_layer = lyr, cl_feature = feat, cl_geometry = geom, cl_style = st,
                          cl_imageStyle = imageStyle, cl_image = image,
                          cl_callback = opt_newBillboardCallback \<rparr>;
                   s1 = (if isImage image \<and> \<not> isImageLoaded image
                         then s\<lparr>listeners := listeners s @ [cl]\<rparr>
                         else reallyCreateBillboard e cl s)
               in if getText st \<noteq> None
                  then (case addTextStyle e lyr feat geom st (Primitive None None) of
                          Inl err \<Rightarrow> Inl err
                        | Inr r \<Rightarrow> Inr (Some r, s1))
                  else Inr (None, s1))"

section \<open>Multi-geometries, features, layers\<close>

text \<open>\<open>accumulate\<close>: one primitive per child geometry, added in order.\<close>

fun accumulate ::
  "(geometry \<Rightarrow> error + renderable) \<Rightarrow> geometry list \<Rightarrow> renderable \<Rightarrow> error + renderable" where
  "accumulate functor [] primitives = Inr primitives"
| "accumulate functor (g # gs) primitives =
     (case functor g of
        Inl err \<Rightarrow> Inl err
      | Inr r \<Rightarrow> accumulate functor gs (collection_add primitives r))"

text \<open>The loop over the points of a MultiPoint whose style has a text.\<close>

fun multipoint_text_loop ::
  "env \<Rightarrow> layer \<Rightarrow> feature \<Rightarrow> projection \<Rightarrow> style \<Rightarrow> callback option \<Rightarrow> geometry list
     \<Rightarrow> renderable \<Rightarrow> state \<Rightarrow> error + (renderable \<times> state)" where
  "multipoint_text_loop e lyr feat proj st cb [] primitives s = Inr (primitives, s)"
| "multipoint_text_loop e lyr feat proj st cb (g # gs) primitives s =
     (case olPointGeometryToCesium e lyr feat g proj st cb s of
        Inl err \<Rightarrow> Inl err
      | Inr (None, s') \<Rightarrow> multipoint_text_loop e lyr feat proj st cb gs primitives s'
      | Inr (Some r, s') \<Rightarrow>
          multipoint_text_loop e lyr feat proj st cb gs (collection_add primitives r) s')"

text \<open>
  In the branch of a MultiPoint without text the function handed to
  \<open>goog.array.forEach\<close> is neither bound nor given a receiver, so \<open>this\<close> is not the
  converter there and the call \<open>this.olPointGeometryToCesium(...)\<close> throws a
  \<open>TypeError\<close> at the first point.
\<close>

definition olMultiGeometryToCesium ::
  "env \<Rightarrow> layer \<Rightarrow> feature \<Rightarrow> geometry \<Rightarrow> projection \<Rightarrow> style \<Rightarrow> callback option
     \<Rightarrow> state \<Rightarrow> error + (renderable option \<times> state)" where
  "olMultiGeometryToCesium e lyr feat geom proj olStyle cb s =
     (case geom of
        MultiPoint cs \<Rightarrow>
          let subgeos = map Point cs
          in if getText olStyle \<noteq> None
             then (case multipoint_text_loop e lyr feat proj olStyle cb subgeos
                          (PrimitiveCollection None []) s of
                     Inl err \<Rightarrow> Inl err
                   | Inr (primitives, s') \<Rightarrow> Inr (Some primitives, s'))
             else if subgeos = [] then Inr (None, s)
             else Inl (TypeError ''this.olPointGeometryToCesium is not a function'')
      | MultiLineString ls \<Rightarrow>
          (case accumulate (\<lambda>g. olLineStringGeometryToCesium e lyr feat g proj olStyle)
                  (map LineString ls) (PrimitiveCollection None []) of
             Inl err \<Rightarrow> Inl err
           | Inr primitives \<Rightarrow> Inr (Some primitives, s))
      | MultiPolygon ps \<Rightarrow>
          (case accumulate (\<lambda>g. olPolygonGeometryToCesium e lyr feat g proj olStyle)
                  (map Polygon ps) (PrimitiveCollection None []) of
             Inl err \<Rightarrow> Inl err
           | Inr primitives \<Rightarrow> Inr (Some primitives, s))
      | _ \<Rightarrow> Inl (AssertionError ''Unhandled multi geometry type''))"

text \<open>
  \<open>olFeatureToCesium\<close> on a geometry that is present, and its loop over the members of a
  geometry collection, which calls it again with the member as \<open>opt_geom\<close>.
\<close>

fun olFeatureToCesium_geom ::
  "env \<Rightarrow> layer \<Rightarrow> feature \<Rightarrow> style \<Rightarrow> geometry \<Rightarrow> state
     \<Rightarrow> error + (renderable option \<times> state)"
and olFeatureToCesium_members ::
  "env \<Rightarrow> layer \<Rightarrow> feature \<Rightarrow> style \<Rightarrow> geometry list \<Rightarrow> renderable \<Rightarrow> state
     \<Rightarrow> error + (renderable \<times> state)" where
  "olFeatureToCesium_geom e lyr feat st (GeometryCollection gs) s =
     (case olFeatureToCesium_members e lyr feat st gs (PrimitiveCollection None []) s of
        Inl err \<Rightarrow> Inl err
      | Inr (primitives, s') \<Rightarrow> Inr (Some primitives, s'))"
| "olFeatureToCesium_geom e lyr feat st (Point c) s =
     olPointGeometryToCesium e lyr feat (Point c) (ctx_projection s) st
       (Some (NewBillboardAddedCallback feat)) s"
| "olFeatureToCesium_geom e lyr feat st (Circle c r) s =
     (case olCircleGeometryToCesium e lyr feat (Circle c r) (ctx_projection s) st of
        Inl err \<Rightarrow> Inl err
      | Inr r \<Rightarrow> Inr (Some r, s))"
| "olFeatureToCesium_geom e lyr feat st (LineString cs) s =
     (case olLineStringGeometryToCesium e lyr feat (LineString cs) (ctx_projection s) st of
        Inl err \<Rightarrow> Inl err
      | Inr r \<Rightarrow> Inr (Some r, s))"
| "olFeatureToCesium_geom e lyr feat st (Polygon rs) s =
     (case olPolygonGeometryToCesium e lyr feat (Polygon rs) (ctx_projection s) st of
        Inl err \<Rightarrow> Inl err
      | Inr r \<Rightarrow> Inr (Some r, s))"
| "olFeatureToCesium_geom e lyr feat st (MultiPoint cs) s =
     olMultiGeometryToCesium e lyr feat (MultiPoint cs) (ctx_projection s) st
       (Some (NewBillboardAddedCallback feat)) s"
| "olFeatureToCesium_geom e lyr feat st (MultiLineString ls) s =
     olMultiGeometryToCesium e lyr feat (MultiLineString ls) (ctx_projection s) st
       (Some (NewBillboardAddedCallback feat)) s"
| "olFeatureToCesium_geom e lyr feat st (MultiPolygon ps) s =
     olMultiGeometryToCesium e lyr feat (MultiPolygon ps) (ctx_projection s) st
       (Some (NewBillboardAddedCallback feat)) s"
| "olFeatureToCesium_geom e lyr feat st (LinearRing cs) s =
     Inl (Error ''LinearRing should only be part of polygon.'')"
| "olFeatureToCesium_members e lyr feat st [] primitives s = Inr (primitives, s)"
| "olFeatureToCesium_members e lyr feat st (g # gs) primitives s =
     (case olFeatureToCesium_geom e lyr feat st g s of
        Inl err \<Rightarrow> Inl err
      | Inr (None, s') \<Rightarrow> olFeatureToCesium_members e lyr feat st gs primitives s'
      | Inr (Some prims, s') \<Rightarrow>
          olFeatureToCesium_members e lyr feat st gs (collection_add primitives prims) s')"

definition olFeatureToCesium ::
  "env \<Rightarrow> layer \<Rightarrow> feature \<Rightarrow> style \<Rightarrow> state \<Rightarrow> geometry option
     \<Rightarrow> error + (renderable option \<times> state)" where
  "olFeatureToCesium e lyr feat st context opt_geom =
     (case (case opt_geom of Some g \<Rightarrow> Some g | None \<Rightarrow> getGeometry feat) of
        None \<Rightarrow> Inr (None, context)
      | Some geom \<Rightarrow> olFeatureToCesium_geom e lyr feat st geom context)"

record view =
  getProjection :: "projection option"
  getResolution :: "number option"

text \<open>What \<open>olVectorLayerToCesium\<close> hands back: the members added to \<open>allPrimitives\<close>,
  its context, and the caller's \<open>featurePrimitiveMap\<close> as the call leaves it. The context
  starts with the view's projection, no billboard and an empty map; the listeners in it
  are those the call registers.\<close>

record layer_primitive =
  lp_members :: "renderable list"
  lp_context :: state
  lp_featurePrimitiveMap :: "nat \<rightharpoonup> renderable"

fun layer_features_loop ::
  "env \<Rightarrow> layer \<Rightarrow> number \<Rightarrow> feature option list \<Rightarrow> layer_primitive \<Rightarrow> error + layer_primitive" where
  "layer_features_loop e olLayer resolution [] acc = Inr acc"
| "layer_features_loop e olLayer resolution (None # fs) acc =
     layer_features_loop e olLayer resolution fs acc"
| "layer_features_loop e olLayer resolution (Some feat # fs) acc =
     (case computePlainStyle olLayer feat (layer_getStyleFunction olLayer) resolution of
        Inl err \<Rightarrow> Inl err
      | Inr (Def st) \<Rightarrow>
          (case olFeatureToCesium e olLayer feat st (lp_context acc) None of
             Inl err \<Rightarrow> Inl err
           | Inr (None, context') \<Rightarrow>
               layer_features_loop e olLayer resolution fs (acc\<lparr>lp_context := context'\<rparr>)
           | Inr (Some primitives, context') \<Rightarrow>
               layer_features_loop e olLayer resolution fs
                 (acc\<lparr> lp_context := context',
                       lp_featurePrimitiveMap :=
                         (lp_featurePrimitiveMap acc)(getUid feat \<mapsto> primitives),
                       lp_members := lp_members acc @ [primitives] \<rparr>))
      | Inr _ \<Rightarrow> layer_features_loop e olLayer resolution fs acc)"

definition olVectorLayerToCesium ::
  "env \<Rightarrow> layer \<Rightarrow> view \<Rightarrow> (nat \<rightharpoonup> renderable) \<Rightarrow> error + layer_primitive" where
  "olVectorLayerToCesium e olLayer olView featurePrimitiveMap =
     (case (getProjection olView, getResolution olView) of
        (Some proj, Some resolution) \<Rightarrow>
          layer_features_loop e olLayer resolution (getFeatures olLayer)
            \<lparr> lp_members = [],
              lp_context = \<lparr> ctx_projection = proj, ctx_billboards = [],
                             featureToCesiumMap = Map.empty, listeners = [] \<rparr>,
              lp_featurePrimitiveMap = featurePrimitiveMap \<rparr>
      | _ \<Rightarrow> Inl (AssertionError ''View not ready''))"

definition convert ::
  "env \<Rightarrow> layer \<Rightarrow> view \<Rightarrow> feature \<Rightarrow> state \<Rightarrow> error + (renderable option \<times> state)" where
  "convert e lyr v feat context =
     (case (getProjection v, getResolution v) of
        (Some proj, Some resolution) \<Rightarrow>
          (case computePlainStyle lyr feat (layer_getStyleFunction lyr) resolution of
             Inl err \<Rightarrow> Inl err
           | Inr (Def st) \<Rightarrow>
               olFeatureToCesium e lyr feat st (context\<lparr>ctx_projection := proj\<rparr>) None
           | Inr _ \<Rightarrow> Inr (None, context))
      | _ \<Rightarrow> Inr (None, context))"

section \<open>Sample inputs\<close>

text \<open>
  A small stand-in for the missing helpers, used to evaluate the converter on concrete
  inputs: the coordinate transform is the identity, a coordinate \<open>[x, y]\<close> or \<open>[x, y, z]\<close>
  is placed at \<open>(2x, 2y, z)\<close>, the distance is the Euclidean one, every colour converts
  to opaque white, and the maximum line width is 8.
\<close>

fun sample_toCartesian :: "coordinate \<Rightarrow> cartesian3" where
  "sample_toCartesian [x, y] = Cartesian3 (js_add x x) (js_add y y) (Num 0)"
| "sample_toCartesian [x, y, z] = Cartesian3 (js_add x x) (js_add y y) z"
| "sample_toCartesian _ = Cartesian3 NaN NaN NaN"

fun sample_distance :: "cartesian3 \<Rightarrow> cartesian3 \<Rightarrow> number" where
  "sample_distance (Cartesian3 (Num x1) (Num y1) (Num z1)) (Cartesian3 (Num x2) (Num y2) (Num z2)) =
     Num (sqrt ((x1 - x2)\<^sup>2 + (y1 - y2)\<^sup>2 + (z1 - z2)\<^sup>2))"
| "sample_distance _ _ = NaN"

definition sample_env :: env where
  "sample_env = \<lparr>
     transformTo4326 = (\<lambda>p c. c),
     radiusTo4326 = (\<lambda>p c r. r),
     ol4326CoordinateToCesiumCartesian = sample_toCartesian,
     ol4326CoordinateArrayToCsCartesians = map sample_toCartesian,
     convertColorToCesium = (\<lambda>c. Color (Num 1) (Num 1) (Num 1) (Num 1)),
     Cartesian3_distance = sample_distance,
     extent_getCenter = (\<lambda>g. (Num 0, Num 0)),
     geometry_altitudeMode = (\<lambda>g. None),
     maximumAliasedLineWidth = Num 8 \<rparr>"

definition sample_stroke :: stroke where
  "sample_stroke = \<lparr> stroke_getColor = Some (ColorString ''red''), getWidth = Some (Num 50),
                     getLineDash = None \<rparr>"

definition sample_fill :: fill where
  "sample_fill = \<lparr> fill_getColor = Some (ColorString ''blue'') \<rparr>"

definition sample_text :: text_style where
  "sample_text = \<lparr> getFill = None, getStroke = None, text_getText = Some ''A'',
                   getOffsetX = Num 0, getOffsetY = Num 0, getFont = None,
                   getTextAlign = None, getTextBaseline = None \<rparr>"

definition sample_style :: style where
  "sample_style = \<lparr> getFill = Some sample_fill, getStroke = Some sample_stroke,
                    getImage = None, getText = None \<rparr>"

definition sample_layer :: layer where
  "sample_layer = \<lparr> getFeatures = [], layer_getStyleFunction = None,
                    layer_altitudeMode = None \<rparr>"

definition sample_feature :: feature where
  "sample_feature = \<lparr> getUid = 7, getGeometry = None, feature_getStyleFunction = None,
                      feature_altitudeMode = None \<rparr>"

definition sample_state :: state where
  "sample_state = \<lparr> ctx_projection = Projection ''EPSG:4326'', ctx_billboards = [],
                    featureToCesiumMap = Map.empty, listeners = [] \<rparr>"

section \<open>Notions used to state the properties\<close>

text \<open>The geometry a primitive draws, and the radius a circle geometry was constructed
  with.\<close>

fun primitive_geometry :: "renderable \<Rightarrow> csgeometry option" where
  "primitive_geometry (Primitive _ (Some (GeometryInstance g _, _))) = Some g"
| "primitive_geometry _ = None"

fun circle_radius :: "csgeometry \<Rightarrow> number option" where
  "circle_radius (CircleGeometry _ r _) = Some r"
| "circle_radius (CircleOutlineGeometry _ r _ _) = Some r"
| "circle_radius _ = None"

text \<open>A store that holds the rings \<open>ps\<close> as one chain: node \<open>j\<close> has the positions of ring
  \<open>j\<close> and points to node \<open>j + 1\<close>, the last node points nowhere. \<open>nest ps\<close> is the object
  graph of such a chain seen from its first node.\<close>

definition chain_store :: "cartesian3 list list \<Rightarrow> hnode list \<Rightarrow> bool" where
  "chain_store ps h \<longleftrightarrow>
     length h = length ps \<and>
     (\<forall>j<length ps. h ! j = \<lparr> hn_positions = Some (ps ! j),
                               hn_holes = (if Suc j < length ps then Some (Suc j) else None) \<rparr>)"

fun nest :: "cartesian3 list list \<Rightarrow> hierarchy" where
  "nest [] = Hierarchy None None"
| "nest [p] = Hierarchy (Some p) None"
| "nest (p # q # qs) = Hierarchy (Some p) (Some (nest (q # qs)))"

text \<open>
  \<open>every_object_bound\<close>: the renderable and everything inside it carries the reference to
  the layer and the feature. \<open>drawn_objects_bound\<close>: every primitive that has a geometry,
  every label and every billboard in it does; the containers need not, nor a primitive
  without geometry. \<open>containers_unbound\<close>: every primitive collection and every label
  collection in it, the renderable itself included, carries no reference.
  \<open>references_placed\<close> is the two together.
\<close>

fun every_object_bound :: "layer \<Rightarrow> feature \<Rightarrow> renderable \<Rightarrow> bool" where
  "every_object_bound lyr feat (Primitive r g) = (r = Some (lyr, feat))"
| "every_object_bound lyr feat (PrimitiveCollection r xs) =
     (r = Some (lyr, feat) \<and> (\<forall>x\<in>set xs. every_object_bound lyr feat x))"
| "every_object_bound lyr feat (LabelCollection r xs) =
     (r = Some (lyr, feat) \<and> (\<forall>x\<in>set xs. every_object_bound lyr feat x))"
| "every_object_bound lyr feat (Label r opts) = (r = Some (lyr, feat))"
| "every_object_bound lyr feat (Billboard r opts) = (r = Some (lyr, feat))"

fun drawn_objects_bound :: "layer \<Rightarrow> feature \<Rightarrow> renderable \<Rightarrow> bool" where
  "drawn_objects_bound lyr feat (Primitive r g) = (g = None \<or> r = Some (lyr, feat))"
| "drawn_objects_bound lyr feat (PrimitiveCollection r xs) =
     (\<forall>x\<in>set xs. drawn_objects_bound lyr feat x)"
| "drawn_objects_bound lyr feat (LabelCollection r xs) =
     (\<forall>x\<in>set xs. drawn_objects_bound lyr feat x)"
| "drawn_objects_bound lyr feat (Label r opts) = (r = Some (lyr, feat))"
| "drawn_objects_bound lyr feat (Billboard r opts) = (r = Some (lyr, feat))"

fun containers_unbound :: "renderable \<Rightarrow> bool" where
  "containers_unbound (Primitive r g) = True"
| "containers_unbound (PrimitiveCollection r xs) =
     (r = None \<and> (\<forall>x\<in>set xs. containers_unbound x))"
| "containers_unbound (LabelCollection r xs) =
     (r = None \<and> (\<forall>x\<in>set xs. containers_unbound x))"
| "containers_unbound (Label r opts) = True"
| "containers_unbound (Billboard r opts) = True"

fun references_placed :: "layer \<Rightarrow> feature \<Rightarrow> renderable \<Rightarrow> bool" where
  "references_placed lyr feat (Primitive r g) = (g = None \<or> r = Some (lyr, feat))"
| "references_placed lyr feat (PrimitiveCollection r xs) =
     (r = None \<and> (\<forall>x\<in>set xs. references_placed lyr feat x))"
| "references_placed lyr feat (LabelCollection r xs) =
     (r = None \<and> (\<forall>x\<in>set xs. references_placed lyr feat x))"
| "references_placed lyr feat (Label r opts) = (r = Some (lyr, feat))"
| "references_placed lyr feat (Billboard r opts) = (r = Some (lyr, feat))"

text \<open>The text styles for which \<open>olGeometry4326TextPartToCesium\<close> builds a label: the
  text is defined, and alignment and baseline are unset or among the handled values.\<close>

definition label_buildable :: "text_style \<Rightarrow> bool" where
  "label_buildable t \<longleftrightarrow>
     text_getText t \<noteq> None
     \<and> (truthy_string (getTextAlign t) \<longrightarrow>
          getTextAlign t \<in> {Some ''center'', Some ''left'', Some ''right''})
     \<and> (truthy_string (getTextBaseline t) \<longrightarrow>
          getTextBaseline t \<in> {Some ''top'', Some ''middle'', Some ''bottom'',
                                 Some ''alphabetic'', Some ''hanging''})"

text \<open>The billboard \<open>reallyCreateBillboard\<close> adds for a closure.\<close>

definition billboard_of :: "env \<Rightarrow> closure \<Rightarrow> renderable" where
  "billboard_of e cl =
     Billboard (Some (cl_layer cl, cl_feature cl))
       \<lparr> bo_image = cl_image cl,
         bo_color = (case getOpacity (cl_imageStyle cl) of
                       Some opacity \<Rightarrow> Some (Color (Num 1) (Num 1) (Num 1) opacity)
                     | None \<Rightarrow> None),
         bo_heightReference = getHeightReference e (cl_layer cl) (cl_feature cl) (cl_geometry cl),
         bo_verticalOrigin = VO_BOTTOM,
         bo_position = ol4326CoordinateToCesiumCartesian e (point_getCoordinates (cl_geometry cl)) \<rparr>"

text \<open>The closure \<open>olPointGeometryToCesium\<close> creates for its arguments.\<close>

definition point_closure ::
  "env \<Rightarrow> layer \<Rightarrow> feature \<Rightarrow> geometry \<Rightarrow> projection \<Rightarrow> style \<Rightarrow> image_style
     \<Rightarrow> callback option \<Rightarrow> closure" where
  "point_closure e lyr feat g proj st imageStyle cb =
     \<lparr> cl_layer = lyr, cl_feature = feat, cl_geometry = olGeometryCloneTo4326 e g proj,
       cl_style = st, cl_imageStyle = imageStyle, cl_image = image_getImage imageStyle,
       cl_callback = cb \<rparr>"

text \<open>The context \<open>s'\<close> is \<open>s\<close> with more billboards and more pending listeners, all of
  them for the given layer and feature.\<close>

definition context_extended :: "layer \<Rightarrow> feature \<Rightarrow> state \<Rightarrow> state \<Rightarrow> bool" where
  "context_extended lyr feat s s' \<longleftrightarrow>
     (\<exists>bbs. ctx_billboards s' = ctx_billboards s @ bbs
            \<and> (\<forall>b\<in>set bbs. pickingReference b = Some (lyr, feat)))
     \<and> (\<exists>ls. listeners s' = listeners s @ ls
            \<and> (\<forall>cl\<in>set ls. cl_layer cl = lyr \<and> cl_feature cl = feat))"

text \<open>What the converters hand back for a feature: a primitive collection whose drawn
  objects are bound to the layer and the feature, and in which no collection, itself
  included, has a reference.\<close>

definition feature_collection :: "layer \<Rightarrow> feature \<Rightarrow> renderable \<Rightarrow> bool" where
  "feature_collection lyr feat r \<longleftrightarrow>
     (\<exists>xs. r = PrimitiveCollection None xs) \<and> references_placed lyr feat r"

definition sample_outer :: "coordinate list" where
  "sample_outer = [[Num 0, Num 0], [Num 4, Num 0], [Num 0, Num 4], [Num 0, Num 0]]"

definition sample_hole :: "coordinate list" where
  "sample_hole = [[Num 1, Num 1], [Num 2, Num 1], [Num 1, Num 2], [Num 1, Num 1]]"

definition sample_unloaded_icon :: image_style where
  "sample_unloaded_icon = \<lparr> image_getImage = ImageElement ''icon.png'' 0 0 False,
                            getOpacity = None \<rparr>"

definition sample_loaded_icon :: image_style where
  "sample_loaded_icon = \<lparr> image_getImage = ImageElement ''icon.png'' 32 32 True,
                          getOpacity = None \<rparr>"

definition sample_null_icon :: image_style where
  "sample_null_icon = \<lparr> image_getImage = NullImage, getOpacity = None \<rparr>"

text \<open>A point style with a text and an icon that is still loading; the same with an icon
  that has no image; and a style with a loaded icon and no text.\<close>

definition sample_style_loading :: style where
  "sample_style_loading = \<lparr> getFill = None, getStroke = None,
                            getImage = Some sample_unloaded_icon, getText = Some sample_text \<rparr>"

definition sample_style_noimage :: style where
  "sample_style_noimage = \<lparr> getFill = None, getStroke = None,
                            getImage = Some sample_null_icon, getText = Some sample_text \<rparr>"

definition sample_style_icon :: style where
  "sample_style_icon = \<lparr> getFill = None, getStroke = None,
                         getImage = Some sample_loaded_icon, getText = None \<rparr>"

definition sample_callback :: "callback option" where
  "sample_callback = Some (NewBillboardAddedCallback sample_feature)"

text \<open>A feature the orchestrators do not render: its plain style resolves to \<open>null\<close> or
  \<open>undefined\<close>, or it resolves to a style and the feature has no geometry.\<close>

definition not_rendered :: "layer \<Rightarrow> number \<Rightarrow> feature \<Rightarrow> bool" where
  "not_rendered lyr resolution feat \<longleftrightarrow>
     (case computePlainStyle lyr feat (layer_getStyleFunction lyr) resolution of
        Inl err \<Rightarrow> False
      | Inr (Def st) \<Rightarrow> getGeometry feat = None
      | Inr _ \<Rightarrow> True)"

definition sample_view :: view where
  "sample_view = \<lparr> getProjection = Some (Projection ''EPSG:3857''), getResolution = Some (Num 1) \<rparr>"

section \<open>Properties\<close>

lemma Math_min_not_greater: "\<not> js_greater (Math_min a b) b"
  by (cases a; cases b) auto

text \<open>
  What \<open>extractLineWidthFromOlStyle\<close> does for a style without stroke and for a stroke
  whose width is a number: it takes 1, or that width, and returns the smaller of it and
  the scene's \<open>maximumAliasedLineWidth\<close>. The result is never greater than that maximum,
  and a stroke of width 50 with a maximum of 8 gives 8.
\<close>

lemma extractLineWidth_clamped:
  "(getStroke st = None \<longrightarrow>
      extractLineWidthFromOlStyle e st = Math_min (Num 1) (maximumAliasedLineWidth e))
   \<and> (\<forall>s w m. getStroke st = Some s \<and> getWidth s = Some (Num w)
                \<and> maximumAliasedLineWidth e = Num m
        \<longrightarrow> extractLineWidthFromOlStyle e st = Num (if w \<le> m then w else m))
   \<and> \<not> js_greater (extractLineWidthFromOlStyle e st) (maximumAliasedLineWidth e)
   \<and> (\<forall>s. getStroke st = Some s \<and> getWidth s = Some (Num 50)
              \<and> maximumAliasedLineWidth e = Num 8
        \<longrightarrow> extractLineWidthFromOlStyle e st = Num 8)"
  by (auto simp: extractLineWidthFromOlStyle_def Math_min_not_greater min_def)

lemma extractLineWidth_sample:
  "extractLineWidthFromOlStyle sample_env sample_style = Num 8
   \<and> extractLineWidthFromOlStyle sample_env (sample_style\<lparr>getStroke := None\<rparr>) = Num 1"
  by (simp add: extractLineWidthFromOlStyle_def sample_style_def sample_stroke_def sample_env_def)

lemma extractLineWidth_undefined_width:
  "getStroke st = Some s \<Longrightarrow> getWidth s = None \<Longrightarrow> extractLineWidthFromOlStyle e st = NaN"
  by (simp add: extractLineWidthFromOlStyle_def)

text \<open>
  C7. The default of 1 is taken only when the style has no stroke. A stroke that has a
  colour and no width is a stroke, so \<open>width\<close> is \<open>undefined\<close> and
  \<open>Math.min(undefined, 8)\<close> is \<open>NaN\<close>: the function returns \<open>NaN\<close> where the claim
  has 1. Here the sample style, whose stroke is red, with the width taken away and a
  maximum line width of 8.
\<close>

theorem extractLineWidth_stroke_without_width:
  "getStroke (sample_style\<lparr>getStroke := Some (sample_stroke\<lparr>getWidth := None\<rparr>)\<rparr>)
     = Some (sample_stroke\<lparr>getWidth := None\<rparr>)
   \<and> maximumAliasedLineWidth sample_env = Num 8
   \<and> extractLineWidthFromOlStyle sample_env
        (sample_style\<lparr>getStroke := Some (sample_stroke\<lparr>getWidth := None\<rparr>)\<rparr>) = NaN"
  by (simp add: extractLineWidthFromOlStyle_def sample_env_def)

text \<open>
  C6. \<open>olStyleToCesium\<close> returns \<open>null\<close> exactly when the outline is asked for and the
  style has no stroke, or the fill is asked for and the style has no fill. Asked for the
  outline of a stroke with a dash pattern it returns a \<open>Stripe\<close> material in the stroke's
  colour; in the other cases where it returns a material, that is a \<open>Color\<close> material in
  the stroke's or the fill's colour. A style with a stroke and no fill gives a material for
  \<open>outline = true\<close> and \<open>null\<close> for \<open>outline = false\<close>.
\<close>

theorem olStyleToCesium_cases:
  "(olStyleToCesium e st outline = None
      \<longleftrightarrow> (outline \<and> getStroke st = None) \<or> (\<not> outline \<and> getFill st = None))
   \<and> (\<forall>s. outline \<and> getStroke st = Some s \<and> getLineDash s \<noteq> None \<longrightarrow>
         olStyleToCesium e st outline =
           Some (StripeMaterial False (Num 500) (convertColorToCesium e (stroke_getColor s))
                   (Color (Num 0) (Num 0) (Num 0) (Num 0))))
   \<and> (\<forall>s. outline \<and> getStroke st = Some s \<and> getLineDash s = None \<longrightarrow>
         olStyleToCesium e st outline =
           Some (ColorMaterial (convertColorToCesium e (stroke_getColor s))))
   \<and> (\<forall>f. \<not> outline \<and> getFill st = Some f \<longrightarrow>
         olStyleToCesium e st outline =
           Some (ColorMaterial (convertColorToCesium e (fill_getColor f))))
   \<and> (getStroke st \<noteq> None \<and> getFill st = None \<longrightarrow>
         olStyleToCesium e st True \<noteq> None \<and> olStyleToCesium e st False = None)"
  by (auto simp: olStyleToCesium_def Let_def)

theorem olStyleToCesium_cases_witness:
  "getStroke (sample_style\<lparr>getFill := None\<rparr>) \<noteq> None
   \<and> getFill (sample_style\<lparr>getFill := None\<rparr>) = None
   \<and> olStyleToCesium sample_env (sample_style\<lparr>getFill := None\<rparr>) True
       = Some (ColorMaterial (Color (Num 1) (Num 1) (Num 1) (Num 1)))
   \<and> olStyleToCesium sample_env (sample_style\<lparr>getFill := None\<rparr>) False = None"
  using olStyleToCesium_cases [of sample_env "sample_style\<lparr>getFill := None\<rparr>" True]
  by (simp add: sample_style_def sample_stroke_def sample_env_def)

subsection \<open>The plain style of a feature\<close>

lemma first_style_not_Null: "first_style arr \<noteq> Null"
  by (cases arr) auto

lemma computePlainStyle_own_style:
  "feature_getStyleFunction feat = Some f \<Longrightarrow> f res = Def arr \<Longrightarrow>
   computePlainStyle lyr feat fb res = Inr (first_style arr)"
  by (simp add: computePlainStyle_def Let_def split: option.splits)

lemma computePlainStyle_fallback:
  "(case feature_getStyleFunction feat of Some f \<Rightarrow> \<not> isDefAndNotNull (f res) | None \<Rightarrow> True) \<Longrightarrow>
   fb = Some g \<Longrightarrow> g feat res = Def arr \<Longrightarrow>
   computePlainStyle lyr feat fb res = Inr (first_style arr)"
  by (simp add: computePlainStyle_def Let_def split: option.splits)

lemma computePlainStyle_neither:
  "feature_getStyleFunction feat = None \<Longrightarrow> computePlainStyle lyr feat None res = Inr Null"
  by (simp add: computePlainStyle_def)

lemma computePlainStyle_null:
  "computePlainStyle lyr feat fb res = Inr Null \<longleftrightarrow>
     (let own = (case feature_getStyleFunction feat of Some f \<Rightarrow> f res | None \<Rightarrow> Undefined)
      in case fb of Some g \<Rightarrow> \<not> isDefAndNotNull own \<and> g feat res = Undefined
                  | None \<Rightarrow> own = Undefined)"
  by (cases "feature_getStyleFunction feat"; cases fb)
     (auto simp: computePlainStyle_def Let_def first_style_not_Null split: jsv.splits)

text \<open>
  C4. \<open>computePlainStyle\<close> evaluates the feature's style function, then the fallback when
  that gave \<open>undefined\<close> or \<open>null\<close>, and returns the first element of the array it ends up
  with, or \<open>null\<close> when it ends up with \<open>undefined\<close>. When it ends up with \<open>null\<close> it does
  not return \<open>null\<close>: \<open>goog.isDef(null)\<close> holds, so the early return is skipped and the
  assertion \<open>goog.isArray(style)\<close> fails. Here a feature whose style function returns
  \<open>null\<close>, with no fallback, at resolution 1.
\<close>

theorem computePlainStyle_null_raises:
  "computePlainStyle sample_layer
     (sample_feature\<lparr>feature_getStyleFunction := Some (\<lambda>resolution. Null)\<rparr>) None (Num 1)
   = Inl (AssertionError ''Assertion failed'')"
  by (simp add: computePlainStyle_def sample_feature_def)

subsection \<open>Fill, outline and text\<close>

lemma wrapFillAndOutlineGeometries_members:
  "wrapFillAndOutlineGeometries e lyr feat fg og st =
     PrimitiveCollection None
       ((if getFill st \<noteq> None
         then [createColoredPrimitive lyr feat fg (extractColorFromOlStyle e st False) None]
         else []) @
        (if getStroke st \<noteq> None
         then [createColoredPrimitive lyr feat og (extractColorFromOlStyle e st True)
                 (Some (extractLineWidthFromOlStyle e st))]
         else []))"
  by (simp add: wrapFillAndOutlineGeometries_def Let_def)

lemma textAlignToOrigin_returns:
  "(\<exists>h. textAlignToOrigin a = Inr h) \<longleftrightarrow>
     (truthy_string a \<longrightarrow> a \<in> {Some ''center'', Some ''left'', Some ''right''})"
  by (auto simp: textAlignToOrigin_def)

lemma textBaselineToOrigin_returns:
  "(\<exists>v. textBaselineToOrigin b = Inr v) \<longleftrightarrow>
     (truthy_string b \<longrightarrow> b \<in> {Some ''top'', Some ''middle'', Some ''bottom'',
                                 Some ''alphabetic'', Some ''hanging''})"
  by (auto simp: textBaselineToOrigin_def)

lemma textPart_shape:
  "olGeometry4326TextPartToCesium e lyr feat g t = Inr lab \<Longrightarrow>
   \<exists>opts. lab = LabelCollection None [Label (Some (lyr, feat)) opts] \<and>
          Some (lo_text opts) = text_getText t"
  by (auto simp: olGeometry4326TextPartToCesium_def Let_def
           split: option.splits sum.splits prod.splits)

lemma textPart_returns:
  "(\<exists>lab. olGeometry4326TextPartToCesium e lyr feat g t = Inr lab) \<longleftrightarrow> label_buildable t"
proof -
  have "(\<exists>lab. olGeometry4326TextPartToCesium e lyr feat g t = Inr lab) \<longleftrightarrow>
        text_getText t \<noteq> None \<and> (\<exists>h. textAlignToOrigin (getTextAlign t) = Inr h)
        \<and> (\<exists>v. textBaselineToOrigin (getTextBaseline t) = Inr v)"
    by (auto simp: olGeometry4326TextPartToCesium_def Let_def
             split: option.splits sum.splits prod.splits)
  then show ?thesis
    unfolding label_buildable_def textAlignToOrigin_returns textBaselineToOrigin_returns .
qed

lemma addTextStyle_collection:
  "addTextStyle e lyr feat g st (PrimitiveCollection r xs) = Inr res \<Longrightarrow>
   (getText st = None \<and> res = PrimitiveCollection r xs) \<or>
   (\<exists>t opts. getText st = Some t \<and> Some (lo_text opts) = text_getText t \<and>
       res = PrimitiveCollection r (xs @ [LabelCollection None [Label (Some (lyr, feat)) opts]]))"
  by (auto simp: addTextStyle_def Let_def split: option.splits sum.splits dest: textPart_shape)

lemma addTextStyle_single:
  "(\<And>r xs. p \<noteq> PrimitiveCollection r xs) \<Longrightarrow>
   addTextStyle e lyr feat g st p = Inr res \<Longrightarrow>
   (getText st = None \<and> res = PrimitiveCollection None [p]) \<or>
   (\<exists>t opts. getText st = Some t \<and> Some (lo_text opts) = text_getText t \<and>
       res = PrimitiveCollection None [p, LabelCollection None [Label (Some (lyr, feat)) opts]])"
  by (cases p)
     (auto simp: addTextStyle_def Let_def split: option.splits sum.splits dest: textPart_shape)

lemma addTextStyle_returns:
  "(\<forall>t. getText st = Some t \<longrightarrow> label_buildable t) \<Longrightarrow>
   \<exists>res. addTextStyle e lyr feat g st p = Inr res"
proof (cases "getText st")
  case None
  then show ?thesis by (simp add: addTextStyle_def Let_def)
next
  case (Some t)
  assume "\<forall>t. getText st = Some t \<longrightarrow> label_buildable t"
  with Some have "label_buildable t" by simp
  then obtain lab where "olGeometry4326TextPartToCesium e lyr feat g t = Inr lab"
    using textPart_returns by blast
  with Some show ?thesis by (simp add: addTextStyle_def Let_def)
qed

subsection \<open>The hierarchy of a polygon\<close>

lemma chain_store_extend:
  assumes "chain_store ps h" "ps \<noteq> []"
  shows "chain_store (ps @ [p])
           (h[length ps - 1 := (h ! (length ps - 1))\<lparr>hn_holes := Some (length h)\<rparr>]
              @ [\<lparr>hn_positions = Some p, hn_holes = None\<rparr>])"
proof -
  from assms have len: "length h = length ps" and n0: "0 < length ps"
    by (auto simp: chain_store_def)
  have nodes: "\<And>j. j < length ps \<Longrightarrow>
      h ! j = \<lparr> hn_positions = Some (ps ! j),
                hn_holes = (if Suc j < length ps then Some (Suc j) else None) \<rparr>"
    using assms by (auto simp: chain_store_def)
  show ?thesis
    unfolding chain_store_def
  proof (intro conjI allI impI)
    show "length (h[length ps - 1 := (h ! (length ps - 1))\<lparr>hn_holes := Some (length h)\<rparr>]
              @ [\<lparr>hn_positions = Some p, hn_holes = None\<rparr>]) = length (ps @ [p])"
      using len by simp
  next
    fix j assume j: "j < length (ps @ [p])"
    consider "j = length ps" | "j = length ps - 1" "j < length ps" | "j < length ps - 1"
      using j by force
    then show "(h[length ps - 1 := (h ! (length ps - 1))\<lparr>hn_holes := Some (length h)\<rparr>]
              @ [\<lparr>hn_positions = Some p, hn_holes = None\<rparr>]) ! j =
          \<lparr> hn_positions = Some ((ps @ [p]) ! j),
            hn_holes = (if Suc j < length (ps @ [p]) then Some (Suc j) else None) \<rparr>"
    proof cases
      case 1 then show ?thesis using len by (simp add: nth_append)
    next
      case 2 then show ?thesis using len n0 nodes[of j] by (simp add: nth_append)
    next
      case 3
      then have j': "Suc j < length ps" "j < length ps" by arith+
      then show ?thesis using 3 len nodes[of j] by (simp add: nth_append)
    qed
  qed
qed

lemma polygon_rings_loop_chain:
  "chain_store ps h \<Longrightarrow> ps \<noteq> [] \<Longrightarrow> i \<noteq> 0 \<Longrightarrow>
   \<forall>r\<in>set rest. ol4326CoordinateArrayToCsCartesians e r \<noteq> [] \<Longrightarrow>
   \<exists>h'. polygon_rings_loop e rest i h (length ps - 1) =
           Inr (h', length ps + length rest - 1)
        \<and> chain_store (ps @ map (ol4326CoordinateArrayToCsCartesians e) rest) h'"
proof (induction rest arbitrary: ps h i)
  case Nil
  then show ?case by simp
next
  case (Cons r rest)
  let ?p = "ol4326CoordinateArrayToCsCartesians e r"
  let ?h = "h[length ps - 1 := (h ! (length ps - 1))\<lparr>hn_holes := Some (length h)\<rparr>]
              @ [\<lparr>hn_positions = Some ?p, hn_holes = None\<rparr>]"
  have len: "length h = length ps" using Cons.prems(1) by (simp add: chain_store_def)
  have cs: "chain_store (ps @ [?p]) ?h"
    using chain_store_extend[OF Cons.prems(1,2)] .
  from Cons.IH[OF cs, of "Suc i"] Cons.prems(4)
  obtain h' where h': "polygon_rings_loop e rest (Suc i) ?h (length (ps @ [?p]) - 1) =
           Inr (h', length (ps @ [?p]) + length rest - 1)"
        "chain_store ((ps @ [?p]) @ map (ol4326CoordinateArrayToCsCartesians e) rest) h'"
    by auto
  show ?case
    using h' Cons.prems(3,4) len by (simp add: Let_def)
qed

lemma object_at_chain:
  "chain_store ps h \<Longrightarrow> j < length ps \<Longrightarrow> length ps - j \<le> Suc n \<Longrightarrow>
   object_at n h j = nest (drop j ps)"
proof (induction n arbitrary: j)
  case 0
  then have "Suc j = length ps" by simp
  then have "drop j ps = [ps ! j]"
    by (metis "0.prems"(2) Cons_nth_drop_Suc drop_all order_refl)
  then show ?case using 0 by (simp add: chain_store_def)
next
  case (Suc n)
  show ?case
  proof (cases "Suc j < length ps")
    case True
    then have d: "drop j ps = ps ! j # ps ! Suc j # drop (Suc (Suc j)) ps"
      by (metis Cons_nth_drop_Suc Suc.prems(2))
    have "object_at n h (Suc j) = nest (drop (Suc j) ps)"
      using Suc.IH[of "Suc j"] Suc.prems True by simp
    moreover have "drop (Suc j) ps = ps ! Suc j # drop (Suc (Suc j)) ps"
      using True by (simp add: Cons_nth_drop_Suc)
    ultimately show ?thesis
      using Suc.prems True d by (simp add: chain_store_def)
  next
    case False
    then have "Suc j = length ps" using Suc.prems by simp
    then have "drop j ps = [ps ! j]"
      by (metis Suc.prems(2) Cons_nth_drop_Suc drop_all order_refl)
    then show ?thesis using Suc.prems False by (simp add: chain_store_def)
  qed
qed

lemma ring_boundaries_nest: "ring_boundaries (nest ps) = ps"
  by (induction ps rule: nest.induct) auto

lemma hole_entries_nest: "length (hole_entries (nest ps)) = length ps - 1"
  by (induction ps rule: nest.induct) auto

text \<open>
  For every polygon whose rings all convert to at least one position: the fill geometry
  gets the whole chain, the outer ring first and one nested \<open>holes\<close> entry per further
  ring; the outline geometry gets the node the variable \<open>hierarchy\<close> ends at, which holds
  the last ring and nothing else.
\<close>

lemma polygon_geometries_general:
  assumes "\<forall>r\<in>set (r0 # holes). ol4326CoordinateArrayToCsCartesians e r \<noteq> []"
  shows "polygon_geometries e (r0 # holes) =
     Inr (PolygonGeometry (nest (map (ol4326CoordinateArrayToCsCartesians e) (r0 # holes))) True,
          PolygonOutlineGeometry
            (nest [ol4326CoordinateArrayToCsCartesians e (last (r0 # holes))]) True)"
proof -
  let ?c = "ol4326CoordinateArrayToCsCartesians e"
  let ?h0 = "[\<lparr>hn_positions = Some (?c r0), hn_holes = None\<rparr>]"
  have cs0: "chain_store [?c r0] ?h0" by (simp add: chain_store_def)
  from polygon_rings_loop_chain[OF cs0, of "Suc 0" holes e] assms
  obtain h' where h': "polygon_rings_loop e holes (Suc 0) ?h0 0 = Inr (h', length holes)"
      "chain_store (?c r0 # map ?c holes) h'"
    by auto
  have len: "length h' = Suc (length holes)" using h'(2) by (simp add: chain_store_def)
  have fill: "object_at (length h') h' 0 = nest (?c r0 # map ?c holes)"
    using object_at_chain[OF h'(2), of 0 "length h'"] len by simp
  have "drop (length holes) (?c r0 # map ?c holes) = [?c (last (r0 # holes))]"
    by (induction holes arbitrary: r0) auto
  then have outl: "object_at (length h') h' (length holes) = nest [?c (last (r0 # holes))]"
    using object_at_chain[OF h'(2), of "length holes" "length h'"] len by simp
  show ?thesis
    using assms h'(1) fill outl by (simp add: polygon_geometries_def Let_def del: nest.simps)
qed

lemma polygon_ring_counts:
  assumes "\<forall>r\<in>set (r0 # holes). ol4326CoordinateArrayToCsCartesians e r \<noteq> []"
  shows "\<exists>fh oh. polygon_geometries e (r0 # holes) =
            Inr (PolygonGeometry fh True, PolygonOutlineGeometry oh True)
         \<and> length (hole_entries fh) = length holes
         \<and> length (ring_boundaries fh) = length holes + 1
         \<and> length (ring_boundaries oh) = 1
         \<and> length (hole_entries oh) = 0"
  using polygon_geometries_general[OF assms]
  by (simp add: ring_boundaries_nest hole_entries_nest)

text \<open>
  C1. A polygon with one hole. The fill geometry is constructed from \<open>polygonHierarchy\<close>
  and has the outer ring with one \<open>holes\<close> entry. The outline geometry is constructed from
  \<open>hierarchy\<close>, which the loop has moved to the node of the hole: it has one ring
  boundary, the hole, and not the outer ring. The claim asks for two ring boundaries in
  the outline, the first being the outer one.
\<close>

theorem polygon_outline_has_last_ring_only:
  "polygon_geometries sample_env [sample_outer, sample_hole] =
     Inr (PolygonGeometry
            (Hierarchy (Some (map sample_toCartesian sample_outer))
               (Some (Hierarchy (Some (map sample_toCartesian sample_hole)) None))) True,
          PolygonOutlineGeometry
            (Hierarchy (Some (map sample_toCartesian sample_hole)) None) True)
   \<and> olPolygonGeometryToCesium sample_env sample_layer sample_feature
      (Polygon [sample_outer, sample_hole]) (Projection ''EPSG:3857'') sample_style =
     Inr (PrimitiveCollection None
       [createColoredPrimitive sample_layer sample_feature
          (PolygonGeometry
            (Hierarchy (Some (map sample_toCartesian sample_outer))
               (Some (Hierarchy (Some (map sample_toCartesian sample_hole)) None))) True)
          (Color (Num 1) (Num 1) (Num 1) (Num 1)) None,
        createColoredPrimitive sample_layer sample_feature
          (PolygonOutlineGeometry
            (Hierarchy (Some (map sample_toCartesian sample_hole)) None) True)
          (Color (Num 1) (Num 1) (Num 1) (Num 1)) (Some (Num 8))])
   \<and> ring_boundaries (Hierarchy (Some (map sample_toCartesian sample_hole)) None) =
       [map sample_toCartesian sample_hole]"
proof -
  have g: "polygon_geometries sample_env [sample_outer, sample_hole] =
     Inr (PolygonGeometry
            (Hierarchy (Some (map sample_toCartesian sample_outer))
               (Some (Hierarchy (Some (map sample_toCartesian sample_hole)) None))) True,
          PolygonOutlineGeometry
            (Hierarchy (Some (map sample_toCartesian sample_hole)) None) True)"
    by (simp add: polygon_geometries_def sample_env_def sample_outer_def sample_hole_def Let_def)
  have "olPolygonGeometryToCesium sample_env sample_layer sample_feature
      (Polygon [sample_outer, sample_hole]) (Projection ''EPSG:3857'') sample_style =
     Inr (PrimitiveCollection None
       [createColoredPrimitive sample_layer sample_feature
          (PolygonGeometry
            (Hierarchy (Some (map sample_toCartesian sample_outer))
               (Some (Hierarchy (Some (map sample_toCartesian sample_hole)) None))) True)
          (Color (Num 1) (Num 1) (Num 1) (Num 1)) None,
        createColoredPrimitive sample_layer sample_feature
          (PolygonOutlineGeometry
            (Hierarchy (Some (map sample_toCartesian sample_hole)) None) True)
          (Color (Num 1) (Num 1) (Num 1) (Num 1)) (Some (Num 8))])"
    using g
    by (simp add: olPolygonGeometryToCesium_def wrapFillAndOutlineGeometries_def addTextStyle_def
        extractColorFromOlStyle_def extractLineWidthFromOlStyle_def
        sample_env_def sample_style_def sample_stroke_def sample_fill_def Let_def)
  with g show ?thesis by simp
qed

subsection \<open>The radius of a circle\<close>

text \<open>
  C2. The copy of the circle in the geographic frame has centre \<open>c4326\<close> and radius
  \<open>r4326\<close>. The radius given to \<open>CircleGeometry\<close> and to \<open>CircleOutlineGeometry\<close> is the
  \<open>Cesium.Cartesian3.distance\<close> between the Cartesian position of the centre and the
  Cartesian position of the centre moved by \<open>r4326\<close> along the first axis; the number
  \<open>r4326\<close> reaches the constructors through that distance only. The conversion returns
  whenever the style has no text
  or a text a label can be built from; every circle geometry in what it returns has that
  radius, the fill geometry is there when the style has a fill, and the outline geometry
  when it has a stroke.
\<close>

theorem circle_radius_from_projected_positions:
  "let c4326 = transformTo4326 e proj c;
       r4326 = radiusTo4326 e proj c r;
       center = ol4326CoordinateToCesiumCartesian e c4326;
       point = ol4326CoordinateToCesiumCartesian e (add_to_first c4326 r4326);
       radius = Cartesian3_distance e center point
   in ((\<forall>t. getText st = Some t \<longrightarrow> label_buildable t) \<longrightarrow>
         (\<exists>res. olCircleGeometryToCesium e lyr feat (Circle c r) proj st = Inr res))
    \<and> (\<forall>res. olCircleGeometryToCesium e lyr feat (Circle c r) proj st = Inr res \<longrightarrow>
         (\<forall>p\<in>set (collection_members res). \<forall>g rad.
            primitive_geometry p = Some g \<and> circle_radius g = Some rad \<longrightarrow> rad = radius)
       \<and> (getFill st \<noteq> None \<longrightarrow>
            (\<exists>p\<in>set (collection_members res). \<exists>h.
               primitive_geometry p = Some (CircleGeometry center radius h)))
       \<and> (getStroke st \<noteq> None \<longrightarrow>
            (\<exists>p\<in>set (collection_members res). \<exists>h.
               primitive_geometry p = Some (CircleOutlineGeometry center radius h h))))"
proof -
  define c4326 where "c4326 = transformTo4326 e proj c"
  define r4326 where "r4326 = radiusTo4326 e proj c r"
  define center where "center = ol4326CoordinateToCesiumCartesian e c4326"
  define point where "point = ol4326CoordinateToCesiumCartesian e (add_to_first c4326 r4326)"
  define R where "R = Cartesian3_distance e center point"
  define h where "h = (if length c4326 = 3 then c4326 ! 2 else Num 0)"
  define prims where "prims = wrapFillAndOutlineGeometries e lyr feat (CircleGeometry center R h)
                  (CircleOutlineGeometry center R h h) st"
  define xs where "xs = (if getFill st \<noteq> None
         then [createColoredPrimitive lyr feat (CircleGeometry center R h)
                 (extractColorFromOlStyle e st False) None]
         else []) @
        (if getStroke st \<noteq> None
         then [createColoredPrimitive lyr feat (CircleOutlineGeometry center R h h)
                 (extractColorFromOlStyle e st True) (Some (extractLineWidthFromOlStyle e st))]
         else [])"
  have run: "olCircleGeometryToCesium e lyr feat (Circle c r) proj st =
             addTextStyle e lyr feat (Circle c4326 r4326) st prims"
    by (simp add: olCircleGeometryToCesium_def Let_def prims_def h_def R_def point_def
        center_def r4326_def c4326_def)
  have prims: "prims = PrimitiveCollection None xs"
    by (simp add: prims_def xs_def wrapFillAndOutlineGeometries_members)
  have total: "(\<forall>t. getText st = Some t \<longrightarrow> label_buildable t) \<longrightarrow>
         (\<exists>res. olCircleGeometryToCesium e lyr feat (Circle c r) proj st = Inr res)"
    unfolding run using addTextStyle_returns by blast
  have part: "(\<forall>p\<in>set (collection_members res). \<forall>g rad.
            primitive_geometry p = Some g \<and> circle_radius g = Some rad \<longrightarrow> rad = R)
       \<and> (getFill st \<noteq> None \<longrightarrow>
            (\<exists>p\<in>set (collection_members res). \<exists>h.
               primitive_geometry p = Some (CircleGeometry center R h)))
       \<and> (getStroke st \<noteq> None \<longrightarrow>
            (\<exists>p\<in>set (collection_members res). \<exists>h.
               primitive_geometry p = Some (CircleOutlineGeometry center R h h)))"
    if "olCircleGeometryToCesium e lyr feat (Circle c r) proj st = Inr res" for res
  proof -
    from that have "addTextStyle e lyr feat (Circle c4326 r4326) st (PrimitiveCollection None xs)
                    = Inr res"
      by (simp add: run prims)
    from addTextStyle_collection[OF this]
    consider "collection_members res = xs"
      | opts where "collection_members res =
                      xs @ [LabelCollection None [Label (Some (lyr, feat)) opts]]"
      by auto
    then show ?thesis
      by cases (auto simp: xs_def createColoredPrimitive_def)
  qed
  show ?thesis
    unfolding Let_def
    using total part
    by (simp only: c4326_def[symmetric] r4326_def[symmetric] center_def[symmetric]
        point_def[symmetric] R_def[symmetric]) blast
qed

lemma sqrt_36: "sqrt 36 = 6"
  using real_sqrt_abs [of 6] by simp

theorem circle_radius_from_projected_positions_witness:
  "getText sample_style = None
   \<and> olCircleGeometryToCesium sample_env sample_layer sample_feature
        (Circle [Num 1, Num 1] (Num 3)) (Projection ''EPSG:4326'') sample_style =
      Inr (PrimitiveCollection None
        [createColoredPrimitive sample_layer sample_feature
           (CircleGeometry (Cartesian3 (Num 2) (Num 2) (Num 0)) (Num 6) (Num 0))
           (Color (Num 1) (Num 1) (Num 1) (Num 1)) None,
         createColoredPrimitive sample_layer sample_feature
           (CircleOutlineGeometry (Cartesian3 (Num 2) (Num 2) (Num 0)) (Num 6) (Num 0) (Num 0))
           (Color (Num 1) (Num 1) (Num 1) (Num 1)) (Some (Num 8))])
   \<and> Cartesian3_distance sample_env
        (ol4326CoordinateToCesiumCartesian sample_env [Num 1, Num 1])
        (ol4326CoordinateToCesiumCartesian sample_env (add_to_first [Num 1, Num 1] (Num 3)))
      = Num 6"
  using circle_radius_from_projected_positions
          [of sample_env "Projection ''EPSG:4326''" "[Num 1, Num 1]" "Num 3" sample_style
              sample_layer sample_feature]
  by (simp add: olCircleGeometryToCesium_def wrapFillAndOutlineGeometries_def addTextStyle_def
      extractColorFromOlStyle_def extractLineWidthFromOlStyle_def sqrt_36
      sample_env_def sample_style_def sample_stroke_def sample_fill_def Let_def)

subsection \<open>Points and billboards\<close>

lemma reallyCreateBillboard_creates:
  "isCanvas (cl_image cl) \<or> isImage (cl_image cl) \<Longrightarrow>
   reallyCreateBillboard e cl s =
     call_callback (cl_callback cl) (billboard_of e cl)
       (s\<lparr>ctx_billboards := ctx_billboards s @ [billboard_of e cl]\<rparr>)"
  by (cases "cl_image cl")
     (auto simp: reallyCreateBillboard_def csAddBillboard_def billboard_of_def Let_def)

lemma reallyCreateBillboard_skips:
  "\<not> isCanvas (cl_image cl) \<Longrightarrow> \<not> isImage (cl_image cl) \<Longrightarrow> reallyCreateBillboard e cl s = s"
  by (cases "cl_image cl") (auto simp: reallyCreateBillboard_def)

lemma isImageLoaded_isImage: "isImageLoaded img \<Longrightarrow> isImage img"
  by (cases img) auto

lemma olPointGeometryToCesium_unfold:
  "getImage st = Some ist \<Longrightarrow>
   olPointGeometryToCesium e lyr feat (Point c) proj st cb s =
     (let cl = point_closure e lyr feat (Point c) proj st ist cb;
          s1 = (if isImage (image_getImage ist) \<and> \<not> isImageLoaded (image_getImage ist)
                then s\<lparr>listeners := listeners s @ [cl]\<rparr>
                else reallyCreateBillboard e cl s)
      in if getText st \<noteq> None
         then (case addTextStyle e lyr feat (Point (transformTo4326 e proj c)) st
                      (Primitive None None) of
                 Inl err \<Rightarrow> Inl err
               | Inr r \<Rightarrow> Inr (Some r, s1))
         else Inr (None, s1))"
  by (simp add: olPointGeometryToCesium_def point_closure_def Let_def)

lemma point_label:
  assumes "getText st = Some t" "label_buildable t"
  shows "\<exists>opts. Some (lo_text opts) = text_getText t \<and>
           addTextStyle e lyr feat g st (Primitive None None) =
             Inr (PrimitiveCollection None
                    [Primitive None None, LabelCollection None [Label (Some (lyr, feat)) opts]])"
proof -
  from assms obtain res where res: "addTextStyle e lyr feat g st (Primitive None None) = Inr res"
    using addTextStyle_returns[of st e lyr feat g "Primitive None None"] by auto
  from addTextStyle_single[OF _ res] assms(1) show ?thesis
    using res by auto
qed

text \<open>
  C3. A point whose style has an image that is an \<open>Image\<close> not loaded yet. The call adds
  no billboard and does not call the callback: it leaves the context as it was, with one
  more pending \<open>load\<close> listener. It returns \<open>null\<close> when the style has no text, and, when
  the style has a text a label can be built from, a collection that carries the label.
  When the listener is fired later, in whatever state the context is then, it is removed,
  a billboard bound to the layer and the feature is added, and the callback is called
  with it.
\<close>

theorem point_image_not_loaded_defers:
  assumes "getImage st = Some ist"
    and "image_getImage ist = ImageElement src naturalHeight naturalWidth completed"
    and "\<not> isImageLoaded (ImageElement src naturalHeight naturalWidth completed)"
    and "cl = point_closure e lyr feat (Point c) proj st ist cb"
  shows "(getText st = None \<longrightarrow>
            olPointGeometryToCesium e lyr feat (Point c) proj st cb s =
              Inr (None, s\<lparr>listeners := listeners s @ [cl]\<rparr>))
       \<and> (\<forall>t. getText st = Some t \<and> label_buildable t \<longrightarrow>
            (\<exists>opts. Some (lo_text opts) = text_getText t \<and>
               olPointGeometryToCesium e lyr feat (Point c) proj st cb s =
                 Inr (Some (PrimitiveCollection None
                        [Primitive None None,
                         LabelCollection None [Label (Some (lyr, feat)) opts]]),
                      s\<lparr>listeners := listeners s @ [cl]\<rparr>)))
       \<and> ctx_billboards (s\<lparr>listeners := listeners s @ [cl]\<rparr>) = ctx_billboards s
       \<and> featureToCesiumMap (s\<lparr>listeners := listeners s @ [cl]\<rparr>) = featureToCesiumMap s
       \<and> (\<forall>s2 i. i < length (listeners s2) \<and> listeners s2 ! i = cl \<longrightarrow>
            fire_load e i s2 =
              call_callback cb (billboard_of e cl)
                (s2\<lparr>listeners := take i (listeners s2) @ drop (Suc i) (listeners s2),
                    ctx_billboards := ctx_billboards s2 @ [billboard_of e cl]\<rparr>))
       \<and> pickingReference (billboard_of e cl) = Some (lyr, feat)"
proof -
  have img: "isImage (image_getImage ist)" "\<not> isImageLoaded (image_getImage ist)"
    using assms(2,3) by simp_all
  have a: "getText st = None \<longrightarrow>
            olPointGeometryToCesium e lyr feat (Point c) proj st cb s =
              Inr (None, s\<lparr>listeners := listeners s @ [cl]\<rparr>)"
    using img by (simp add: olPointGeometryToCesium_unfold[OF assms(1)] assms(4) Let_def)
  have b: "\<exists>opts. Some (lo_text opts) = text_getText t \<and>
               olPointGeometryToCesium e lyr feat (Point c) proj st cb s =
                 Inr (Some (PrimitiveCollection None
                        [Primitive None None,
                         LabelCollection None [Label (Some (lyr, feat)) opts]]),
                      s\<lparr>listeners := listeners s @ [cl]\<rparr>)"
    if "getText st = Some t" "label_buildable t" for t
  proof -
    from point_label[OF that, of e lyr feat "Point (transformTo4326 e proj c)"]
    obtain opts where "Some (lo_text opts) = text_getText t"
      "addTextStyle e lyr feat (Point (transformTo4326 e proj c)) st (Primitive None None) =
         Inr (PrimitiveCollection None
                [Primitive None None, LabelCollection None [Label (Some (lyr, feat)) opts]])"
      by blast
    then show ?thesis
      using img that(1)
      by (simp add: olPointGeometryToCesium_unfold[OF assms(1)] assms(4) Let_def)
  qed
  have clf: "cl_image cl = image_getImage ist" "cl_callback cl = cb"
    "cl_layer cl = lyr" "cl_feature cl = feat"
    by (simp_all add: assms(4) point_closure_def)
  have d: "fire_load e i s2 =
              call_callback cb (billboard_of e cl)
                (s2\<lparr>listeners := take i (listeners s2) @ drop (Suc i) (listeners s2),
                    ctx_billboards := ctx_billboards s2 @ [billboard_of e cl]\<rparr>)"
    if "i < length (listeners s2)" "listeners s2 ! i = cl" for s2 i
    using that img reallyCreateBillboard_creates[of cl e] clf
    by (simp add: fire_load_def)
  have r: "pickingReference (billboard_of e cl) = Some (lyr, feat)"
    by (simp add: billboard_of_def clf)
  from a b d r show ?thesis by simp
qed

text \<open>
  C8. A point whose style has an image descriptor for which \<open>getImage(1)\<close> gives \<open>null\<close>,
  or an object that is neither a canvas nor an \<open>Image\<close>. \<open>reallyCreateBillboard\<close> returns
  at once: the context is unchanged, so there is no billboard and no callback, and
  nothing is thrown. The conversion goes on to the text: it returns \<open>null\<close> when the style
  has no text, and the collection with the label when the style has a text a label can be
  built from.
\<close>

theorem point_unsupported_image_skipped:
  assumes "getImage st = Some ist"
    and "image_getImage ist = NullImage \<or> (\<exists>k. image_getImage ist = OtherElement k)"
  shows "reallyCreateBillboard e (point_closure e lyr feat (Point c) proj st ist cb) s = s
       \<and> (getText st = None \<longrightarrow>
            olPointGeometryToCesium e lyr feat (Point c) proj st cb s = Inr (None, s))
       \<and> (\<forall>t. getText st = Some t \<and> label_buildable t \<longrightarrow>
            (\<exists>opts. Some (lo_text opts) = text_getText t \<and>
               olPointGeometryToCesium e lyr feat (Point c) proj st cb s =
                 Inr (Some (PrimitiveCollection None
                        [Primitive None None,
                         LabelCollection None [Label (Some (lyr, feat)) opts]]), s)))"
proof -
  let ?cl = "point_closure e lyr feat (Point c) proj st ist cb"
  have img: "\<not> isImage (image_getImage ist)" "\<not> isCanvas (image_getImage ist)"
    using assms(2) by auto
  have skip: "reallyCreateBillboard e ?cl s = s"
    using img by (intro reallyCreateBillboard_skips) (simp_all add: point_closure_def)
  have a: "getText st = None \<longrightarrow>
            olPointGeometryToCesium e lyr feat (Point c) proj st cb s = Inr (None, s)"
    using img skip by (simp add: olPointGeometryToCesium_unfold[OF assms(1)] Let_def)
  have b: "\<exists>opts. Some (lo_text opts) = text_getText t \<and>
               olPointGeometryToCesium e lyr feat (Point c) proj st cb s =
                 Inr (Some (PrimitiveCollection None
                        [Primitive None None,
                         LabelCollection None [Label (Some (lyr, feat)) opts]]), s)"
    if "getText st = Some t" "label_buildable t" for t
  proof -
    from point_label[OF that, of e lyr feat "Point (transformTo4326 e proj c)"]
    obtain opts where "Some (lo_text opts) = text_getText t"
      "addTextStyle e lyr feat (Point (transformTo4326 e proj c)) st (Primitive None None) =
         Inr (PrimitiveCollection None
                [Primitive None None, LabelCollection None [Label (Some (lyr, feat)) opts]])"
      by blast
    then show ?thesis
      using img skip that(1)
      by (simp add: olPointGeometryToCesium_unfold[OF assms(1)] Let_def)
  qed
  from skip a b show ?thesis by simp
qed

text \<open>
  A point whose style has no text and has an image descriptor. \<open>olPointGeometryToCesium\<close>
  never returns a renderable, and with the descriptor it returns \<open>null\<close>. When the image is
  a canvas or a loaded \<open>Image\<close>, \<open>olFeatureToCesium\<close> on the point returns \<open>null\<close> as well,
  with the billboard added to the context's billboards and stored in
  \<open>featureToCesiumMap\<close> under the feature's uid by the callback; and the loop of
  \<open>olVectorLayerToCesium\<close> records nothing for the feature in \<open>featurePrimitiveMap\<close> or in
  the layer's primitives.
\<close>

lemma point_without_text_returns_null:
  assumes "getText st = None"
  shows "(\<forall>r s'. olPointGeometryToCesium e lyr feat g proj st cb s = Inr (r, s') \<longrightarrow> r = None)
       \<and> (\<forall>ist. getImage st = Some ist \<longrightarrow>
            (\<exists>s'. olPointGeometryToCesium e lyr feat (Point c) proj st cb s = Inr (None, s')))
       \<and> (\<forall>ist cl bb.
            getImage st = Some ist
            \<and> (isCanvas (image_getImage ist) \<or> isImageLoaded (image_getImage ist))
            \<and> cl = point_closure e lyr feat (Point c) (ctx_projection s) st ist
                     (Some (NewBillboardAddedCallback feat))
            \<and> bb = billboard_of e cl \<longrightarrow>
            olFeatureToCesium e lyr feat st s (Some (Point c)) =
              Inr (None, s\<lparr>ctx_billboards := ctx_billboards s @ [bb],
                            featureToCesiumMap := (featureToCesiumMap s)(getUid feat \<mapsto> bb)\<rparr>)
            \<and> (getGeometry feat = Some (Point c) \<longrightarrow>
                 olFeatureToCesium e lyr feat st s None =
                   olFeatureToCesium e lyr feat st s (Some (Point c))))"
proof -
  have a: "r = None" if "olPointGeometryToCesium e lyr feat g proj st cb s = Inr (r, s')" for r s'
    using that assms
    by (auto simp: olPointGeometryToCesium_def Let_def split: if_splits option.splits)
  have b: "\<exists>s'. olPointGeometryToCesium e lyr feat (Point c) proj st cb s = Inr (None, s')"
    if "getImage st = Some ist" for ist
    using assms by (simp add: olPointGeometryToCesium_unfold[OF that] Let_def)
  have c: "olFeatureToCesium e lyr feat st s (Some (Point c)) =
              Inr (None, s\<lparr>ctx_billboards := ctx_billboards s @ [bb],
                            featureToCesiumMap := (featureToCesiumMap s)(getUid feat \<mapsto> bb)\<rparr>)"
    if "getImage st = Some ist"
      "isCanvas (image_getImage ist) \<or> isImageLoaded (image_getImage ist)"
      "cl = point_closure e lyr feat (Point c) (ctx_projection s) st ist
                     (Some (NewBillboardAddedCallback feat))"
      "bb = billboard_of e cl" for ist cl bb
  proof -
    have clf: "cl_image cl = image_getImage ist"
      "cl_callback cl = Some (NewBillboardAddedCallback feat)"
      by (simp_all add: that(3) point_closure_def)
    have "isCanvas (cl_image cl) \<or> isImage (cl_image cl)"
      using that(2) clf isImageLoaded_isImage by auto
    from reallyCreateBillboard_creates[OF this, of e s]
    have "reallyCreateBillboard e cl s =
            s\<lparr>ctx_billboards := ctx_billboards s @ [bb],
              featureToCesiumMap := (featureToCesiumMap s)(getUid feat \<mapsto> bb)\<rparr>"
      by (simp add: clf that(4))
    moreover have "(isImage (image_getImage ist) \<and> \<not> isImageLoaded (image_getImage ist)) = False"
      using that(2) by (cases "image_getImage ist") auto
    ultimately show ?thesis
      using assms that(3)
      by (auto simp add: olFeatureToCesium_def olPointGeometryToCesium_unfold[OF that(1)] Let_def)
  qed
  have d: "getGeometry feat = Some (Point c) \<longrightarrow>
                 olFeatureToCesium e lyr feat st s None =
                   olFeatureToCesium e lyr feat st s (Some (Point c))"
    by (simp add: olFeatureToCesium_def)
  from a b c d show ?thesis by blast
qed

subsection \<open>The point conversions on sample inputs\<close>

lemma sample_text_buildable: "label_buildable sample_text"
  by (simp add: label_buildable_def sample_text_def)

theorem point_image_not_loaded_defers_witness:
  "getImage sample_style_loading = Some sample_unloaded_icon
   \<and> image_getImage sample_unloaded_icon = ImageElement ''icon.png'' 0 0 False
   \<and> \<not> isImageLoaded (ImageElement ''icon.png'' 0 0 False)
   \<and> getText sample_style_loading = Some sample_text \<and> label_buildable sample_text
   \<and> (\<exists>opts. lo_text opts = ''A'' \<and>
         olPointGeometryToCesium sample_env sample_layer sample_feature (Point [Num 1, Num 2])
             (Projection ''EPSG:4326'') sample_style_loading sample_callback sample_state =
           Inr (Some (PrimitiveCollection None
                  [Primitive None None,
                   LabelCollection None [Label (Some (sample_layer, sample_feature)) opts]]),
                sample_state\<lparr>listeners :=
                  [point_closure sample_env sample_layer sample_feature (Point [Num 1, Num 2])
                     (Projection ''EPSG:4326'') sample_style_loading sample_unloaded_icon
                     sample_callback]\<rparr>))
   \<and> fire_load sample_env 0
        (sample_state\<lparr>listeners :=
           [point_closure sample_env sample_layer sample_feature (Point [Num 1, Num 2])
              (Projection ''EPSG:4326'') sample_style_loading sample_unloaded_icon
              sample_callback]\<rparr>) =
       sample_state\<lparr>
         ctx_billboards :=
           [billboard_of sample_env
              (point_closure sample_env sample_layer sample_feature (Point [Num 1, Num 2])
                 (Projection ''EPSG:4326'') sample_style_loading sample_unloaded_icon
                 sample_callback)],
         featureToCesiumMap :=
           [7 \<mapsto> billboard_of sample_env
              (point_closure sample_env sample_layer sample_feature (Point [Num 1, Num 2])
                 (Projection ''EPSG:4326'') sample_style_loading sample_unloaded_icon
                 sample_callback)]\<rparr>"
proof -
  define cl where "cl = point_closure sample_env sample_layer sample_feature (Point [Num 1, Num 2])
                     (Projection ''EPSG:4326'') sample_style_loading sample_unloaded_icon
                     sample_callback"
  have h1: "getImage sample_style_loading = Some sample_unloaded_icon"
    by (simp add: sample_style_loading_def)
  have h2: "image_getImage sample_unloaded_icon = ImageElement ''icon.png'' 0 0 False"
    by (simp add: sample_unloaded_icon_def)
  have h3: "\<not> isImageLoaded (ImageElement ''icon.png'' 0 0 False)" by simp
  have h5: "getText sample_style_loading = Some sample_text"
    by (simp add: sample_style_loading_def)
  have h6: "text_getText sample_text = Some ''A''" by (simp add: sample_text_def)
  have h7: "listeners sample_state = []" "ctx_billboards sample_state = []"
    "featureToCesiumMap sample_state = Map.empty" "getUid sample_feature = 7"
    by (simp_all add: sample_state_def sample_feature_def)
  note inst = point_image_not_loaded_defers [OF h1 h2 h3 cl_def, where s = sample_state]
  from inst have a: "\<exists>opts. Some (lo_text opts) = text_getText sample_text \<and>
         olPointGeometryToCesium sample_env sample_layer sample_feature (Point [Num 1, Num 2])
             (Projection ''EPSG:4326'') sample_style_loading sample_callback sample_state =
           Inr (Some (PrimitiveCollection None
                  [Primitive None None,
                   LabelCollection None [Label (Some (sample_layer, sample_feature)) opts]]),
                sample_state\<lparr>listeners := listeners sample_state @ [cl]\<rparr>)"
    using h5 sample_text_buildable by blast
  from inst have "fire_load sample_env 0 (sample_state\<lparr>listeners := [cl]\<rparr>) =
       call_callback sample_callback (billboard_of sample_env cl)
         (sample_state\<lparr>listeners := [cl]\<rparr>
            \<lparr>listeners := take 0 (listeners (sample_state\<lparr>listeners := [cl]\<rparr>))
                          @ drop (Suc 0) (listeners (sample_state\<lparr>listeners := [cl]\<rparr>)),
             ctx_billboards := ctx_billboards (sample_state\<lparr>listeners := [cl]\<rparr>)
                          @ [billboard_of sample_env cl]\<rparr>)"
    by simp
  then have b: "fire_load sample_env 0 (sample_state\<lparr>listeners := [cl]\<rparr>) =
       sample_state\<lparr>ctx_billboards := [billboard_of sample_env cl],
                    featureToCesiumMap := [7 \<mapsto> billboard_of sample_env cl]\<rparr>"
    by (simp add: sample_callback_def h7 sample_state_def)
  from a b h1 h2 h3 h5 h6 h7 sample_text_buildable show ?thesis
    unfolding cl_def[symmetric] by auto
qed

theorem point_unsupported_image_skipped_witness:
  "getImage sample_style_noimage = Some sample_null_icon
   \<and> image_getImage sample_null_icon = NullImage
   \<and> getText sample_style_noimage = Some sample_text \<and> label_buildable sample_text
   \<and> (\<exists>opts. lo_text opts = ''A'' \<and>
         olPointGeometryToCesium sample_env sample_layer sample_feature (Point [Num 1, Num 2])
             (Projection ''EPSG:4326'') sample_style_noimage sample_callback sample_state =
           Inr (Some (PrimitiveCollection None
                  [Primitive None None,
                   LabelCollection None [Label (Some (sample_layer, sample_feature)) opts]]),
                sample_state))"
proof -
  have h1: "getImage sample_style_noimage = Some sample_null_icon"
    by (simp add: sample_style_noimage_def)
  have h2: "image_getImage sample_null_icon = NullImage"
    by (simp add: sample_null_icon_def)
  have h5: "getText sample_style_noimage = Some sample_text"
    by (simp add: sample_style_noimage_def)
  have h6: "text_getText sample_text = Some ''A''" by (simp add: sample_text_def)
  from h2 have h2': "image_getImage sample_null_icon = NullImage
                     \<or> (\<exists>k. image_getImage sample_null_icon = OtherElement k)" by simp
  from point_unsupported_image_skipped [OF h1 h2',
      of sample_env sample_layer sample_feature "[Num 1, Num 2]" "Projection ''EPSG:4326''"
         sample_callback sample_state]
  have "\<exists>opts. Some (lo_text opts) = text_getText sample_text \<and>
         olPointGeometryToCesium sample_env sample_layer sample_feature (Point [Num 1, Num 2])
             (Projection ''EPSG:4326'') sample_style_noimage sample_callback sample_state =
           Inr (Some (PrimitiveCollection None
                  [Primitive None None,
                   LabelCollection None [Label (Some (sample_layer, sample_feature)) opts]]),
                sample_state)"
    using h5 sample_text_buildable by blast
  with h1 h2 h5 h6 sample_text_buildable show ?thesis by auto
qed

lemma point_without_text_returns_null_sample:
  "getText sample_style_icon = None
   \<and> getImage sample_style_icon = Some sample_loaded_icon
   \<and> isImageLoaded (image_getImage sample_loaded_icon)
   \<and> olFeatureToCesium sample_env sample_layer sample_feature sample_style_icon sample_state
        (Some (Point [Num 1, Num 2])) =
       Inr (None, sample_state\<lparr>
         ctx_billboards :=
           [billboard_of sample_env
              (point_closure sample_env sample_layer sample_feature (Point [Num 1, Num 2])
                 (Projection ''EPSG:4326'') sample_style_icon sample_loaded_icon
                 sample_callback)],
         featureToCesiumMap :=
           [7 \<mapsto> billboard_of sample_env
              (point_closure sample_env sample_layer sample_feature (Point [Num 1, Num 2])
                 (Projection ''EPSG:4326'') sample_style_icon sample_loaded_icon
                 sample_callback)]\<rparr>)"
proof -
  have h0: "getText sample_style_icon = None" by (simp add: sample_style_icon_def)
  have h1: "getImage sample_style_icon = Some sample_loaded_icon"
    by (simp add: sample_style_icon_def)
  have h2: "isImageLoaded (image_getImage sample_loaded_icon)"
    by (simp add: sample_loaded_icon_def)
  have h7: "ctx_billboards sample_state = []" "ctx_projection sample_state = Projection ''EPSG:4326''"
    "featureToCesiumMap sample_state = Map.empty" "getUid sample_feature = 7"
    by (simp_all add: sample_state_def sample_feature_def)
  from point_without_text_returns_null [OF h0, of sample_env sample_layer sample_feature _ _ _
      sample_state "[Num 1, Num 2]"] h1 h2
  have "olFeatureToCesium sample_env sample_layer sample_feature sample_style_icon sample_state
        (Some (Point [Num 1, Num 2])) =
       Inr (None, sample_state\<lparr>
         ctx_billboards := ctx_billboards sample_state @
           [billboard_of sample_env
              (point_closure sample_env sample_layer sample_feature (Point [Num 1, Num 2])
                 (ctx_projection sample_state) sample_style_icon sample_loaded_icon
                 (Some (NewBillboardAddedCallback sample_feature)))],
         featureToCesiumMap := (featureToCesiumMap sample_state)
           (getUid sample_feature \<mapsto> billboard_of sample_env
              (point_closure sample_env sample_layer sample_feature (Point [Num 1, Num 2])
                 (ctx_projection sample_state) sample_style_icon sample_loaded_icon
                 (Some (NewBillboardAddedCallback sample_feature))))\<rparr>)"
    by blast
  with h0 h1 h2 show ?thesis
    by (simp add: h7 sample_callback_def)
qed

text \<open>
  C10. A point whose style has no text and no image descriptor either (here the sample
  style, a fill and a stroke). \<open>style.getImage()\<close> is \<open>null\<close> and the next statement,
  \<open>imageStyle.getImage(1)\<close>, is reached without a test: the conversion throws a
  \<open>TypeError\<close>, in \<open>olPointGeometryToCesium\<close> and so in \<open>olFeatureToCesium\<close>, where the
  claim has both return \<open>null\<close>.
\<close>

theorem point_without_image_throws:
  "getText sample_style = None \<and> getImage sample_style = None
   \<and> olPointGeometryToCesium sample_env sample_layer sample_feature (Point [Num 1, Num 2])
        (Projection ''EPSG:4326'') sample_style sample_callback sample_state
      = Inl (TypeError ''imageStyle is null'')
   \<and> olFeatureToCesium sample_env sample_layer sample_feature sample_style sample_state
        (Some (Point [Num 1, Num 2]))
      = Inl (TypeError ''imageStyle is null'')"
  by (simp add: olFeatureToCesium_def olPointGeometryToCesium_def sample_style_def Let_def)

subsection \<open>Layers and single features\<close>

lemma layer_features_loop_skip:
  "not_rendered lyr res feat \<Longrightarrow>
   layer_features_loop e lyr res (Some feat # fs) acc = layer_features_loop e lyr res fs acc"
  by (auto simp: not_rendered_def olFeatureToCesium_def split: sum.splits jsv.splits)

lemma layer_features_loop_all_skipped:
  "\<forall>f\<in>set fs. (case f of None \<Rightarrow> True | Some feat \<Rightarrow> not_rendered lyr res feat) \<Longrightarrow>
   layer_features_loop e lyr res fs acc = Inr acc"
proof (induction fs)
  case Nil
  then show ?case by simp
next
  case (Cons f fs)
  show ?case
  proof (cases f)
    case None
    with Cons show ?thesis by simp
  next
    case (Some feat)
    with Cons.prems have "not_rendered lyr res feat" by simp
    from layer_features_loop_skip[OF this] Some Cons show ?thesis by simp
  qed
qed

lemma convert_skip:
  "getProjection v = Some proj \<Longrightarrow> getResolution v = Some res \<Longrightarrow>
   not_rendered lyr res feat \<Longrightarrow>
   convert e lyr v feat ctx = Inr (None, ctx) \<or>
   convert e lyr v feat ctx = Inr (None, ctx\<lparr>ctx_projection := proj\<rparr>)"
  by (auto simp: convert_def not_rendered_def olFeatureToCesium_def
           split: sum.splits jsv.splits)

text \<open>
  When the view has no resolution or no projection, \<open>olVectorLayerToCesium\<close> throws
  and \<open>convert\<close> returns \<open>null\<close> with the context untouched. When the view has both, a
  feature whose plain style comes out as \<open>null\<close> or \<open>undefined\<close> without a throw, or
  that has a style and no geometry, gives \<open>null\<close>
  in \<open>convert\<close> (which has at most set the projection of the context), and is passed over
  by the loop of \<open>olVectorLayerToCesium\<close>: the loop continues with the next feature from
  the same accumulated result; a layer with only such features yields an empty layer
  primitive and leaves \<open>featurePrimitiveMap\<close> as it was.
\<close>

lemma view_not_ready_and_features_skipped:
  "((getResolution v = None \<or> getProjection v = None) \<longrightarrow>
      olVectorLayerToCesium e lyr v m = Inl (AssertionError ''View not ready'')
      \<and> convert e lyr v feat ctx = Inr (None, ctx))
   \<and> (\<forall>proj res. getProjection v = Some proj \<and> getResolution v = Some res \<longrightarrow>
        (not_rendered lyr res feat \<longrightarrow>
           (convert e lyr v feat ctx = Inr (None, ctx) \<or>
            convert e lyr v feat ctx = Inr (None, ctx\<lparr>ctx_projection := proj\<rparr>))
           \<and> (\<forall>fs acc. layer_features_loop e lyr res (Some feat # fs) acc =
                         layer_features_loop e lyr res fs acc))
        \<and> ((\<forall>f\<in>set (getFeatures lyr).
               (case f of None \<Rightarrow> True | Some ft \<Rightarrow> not_rendered lyr res ft)) \<longrightarrow>
            olVectorLayerToCesium e lyr v m =
              Inr \<lparr> lp_members = [],
                    lp_context = \<lparr> ctx_projection = proj, ctx_billboards = [],
                                   featureToCesiumMap = Map.empty, listeners = [] \<rparr>,
                    lp_featurePrimitiveMap = m \<rparr>))"
proof -
  have a: "olVectorLayerToCesium e lyr v m = Inl (AssertionError ''View not ready'')
           \<and> convert e lyr v feat ctx = Inr (None, ctx)"
    if "getResolution v = None \<or> getProjection v = None"
    using that by (auto simp: olVectorLayerToCesium_def convert_def split: option.splits)
  have b: "(convert e lyr v feat ctx = Inr (None, ctx) \<or>
            convert e lyr v feat ctx = Inr (None, ctx\<lparr>ctx_projection := proj\<rparr>))
           \<and> (\<forall>fs acc. layer_features_loop e lyr res (Some feat # fs) acc =
                         layer_features_loop e lyr res fs acc)"
    if "getProjection v = Some proj" "getResolution v = Some res" "not_rendered lyr res feat"
    for proj res
    using convert_skip[OF that] layer_features_loop_skip[OF that(3)] by blast
  have c: "olVectorLayerToCesium e lyr v m =
              Inr \<lparr> lp_members = [],
                    lp_context = \<lparr> ctx_projection = proj, ctx_billboards = [],
                                   featureToCesiumMap = Map.empty, listeners = [] \<rparr>,
                    lp_featurePrimitiveMap = m \<rparr>"
    if "getProjection v = Some proj" "getResolution v = Some res"
      "\<forall>f\<in>set (getFeatures lyr).
         (case f of None \<Rightarrow> True | Some ft \<Rightarrow> not_rendered lyr res ft)"
    for proj res
    using that(1,2) layer_features_loop_all_skipped[OF that(3)]
    by (simp add: olVectorLayerToCesium_def)
  from a b c show ?thesis by blast
qed

lemma view_not_ready_and_features_skipped_sample:
  "getResolution (sample_view\<lparr>getResolution := None\<rparr>) = None
   \<and> olVectorLayerToCesium sample_env sample_layer (sample_view\<lparr>getResolution := None\<rparr>)
        Map.empty = Inl (AssertionError ''View not ready'')
   \<and> convert sample_env sample_layer (sample_view\<lparr>getResolution := None\<rparr>) sample_feature
        sample_state = Inr (None, sample_state)
   \<and> getProjection sample_view = Some (Projection ''EPSG:3857'')
   \<and> getResolution sample_view = Some (Num 1)
   \<and> not_rendered (sample_layer\<lparr>getFeatures := [Some sample_feature]\<rparr>) (Num 1) sample_feature
   \<and> olVectorLayerToCesium sample_env (sample_layer\<lparr>getFeatures := [Some sample_feature]\<rparr>)
        sample_view Map.empty =
       Inr \<lparr> lp_members = [],
             lp_context = \<lparr> ctx_projection = Projection ''EPSG:3857'', ctx_billboards = [],
                            featureToCesiumMap = Map.empty, listeners = [] \<rparr>,
             lp_featurePrimitiveMap = Map.empty \<rparr>"
proof -
  have h1: "getResolution (sample_view\<lparr>getResolution := None\<rparr>) = None" by simp
  have h2: "getProjection sample_view = Some (Projection ''EPSG:3857'')"
    "getResolution sample_view = Some (Num 1)"
    by (simp_all add: sample_view_def)
  have h3: "not_rendered (sample_layer\<lparr>getFeatures := [Some sample_feature]\<rparr>) (Num 1)
              sample_feature"
    by (simp add: not_rendered_def computePlainStyle_def sample_layer_def sample_feature_def)
  have h4: "\<forall>f\<in>set (getFeatures (sample_layer\<lparr>getFeatures := [Some sample_feature]\<rparr>)).
              (case f of None \<Rightarrow> True
               | Some ft \<Rightarrow> not_rendered (sample_layer\<lparr>getFeatures := [Some sample_feature]\<rparr>)
                             (Num 1) ft)"
    using h3 by simp
  from view_not_ready_and_features_skipped
         [of "sample_view\<lparr>getResolution := None\<rparr>" sample_env sample_layer Map.empty
             sample_feature sample_state] h1
  have a: "olVectorLayerToCesium sample_env sample_layer (sample_view\<lparr>getResolution := None\<rparr>)
        Map.empty = Inl (AssertionError ''View not ready'')
      \<and> convert sample_env sample_layer (sample_view\<lparr>getResolution := None\<rparr>) sample_feature
        sample_state = Inr (None, sample_state)"
    by blast
  from view_not_ready_and_features_skipped
         [of sample_view sample_env "sample_layer\<lparr>getFeatures := [Some sample_feature]\<rparr>"
             Map.empty sample_feature sample_state] h2 h4
  have b: "olVectorLayerToCesium sample_env (sample_layer\<lparr>getFeatures := [Some sample_feature]\<rparr>)
        sample_view Map.empty =
       Inr \<lparr> lp_members = [],
             lp_context = \<lparr> ctx_projection = Projection ''EPSG:3857'', ctx_billboards = [],
                            featureToCesiumMap = Map.empty, listeners = [] \<rparr>,
             lp_featurePrimitiveMap = Map.empty \<rparr>"
    by blast
  from a b h1 h2 h3 show ?thesis by blast
qed

text \<open>
  C5. A view with projection and resolution, and a feature without geometry whose style
  function returns \<open>null\<close>, in a layer without style function: a feature with no
  resolvable style. It is not skipped. \<open>computePlainStyle\<close> throws for it (the \<open>null\<close>
  passes \<open>goog.isDef\<close> and fails the array assertion), so \<open>convert\<close> throws where the
  claim has it return \<open>null\<close>, and \<open>olVectorLayerToCesium\<close> throws for the whole layer
  where the claim has it go on to the next feature.
\<close>

theorem null_style_feature_not_skipped:
  "getProjection sample_view = Some (Projection ''EPSG:3857'')
   \<and> getResolution sample_view = Some (Num 1)
   \<and> getGeometry (sample_feature\<lparr>feature_getStyleFunction := Some (\<lambda>resolution. Null)\<rparr>) = None
   \<and> convert sample_env sample_layer sample_view
        (sample_feature\<lparr>feature_getStyleFunction := Some (\<lambda>resolution. Null)\<rparr>) sample_state
      = Inl (AssertionError ''Assertion failed'')
   \<and> olVectorLayerToCesium sample_env
        (sample_layer\<lparr>getFeatures :=
           [Some (sample_feature\<lparr>feature_getStyleFunction := Some (\<lambda>resolution. Null)\<rparr>)]\<rparr>)
        sample_view Map.empty
      = Inl (AssertionError ''Assertion failed'')"
  by (simp add: convert_def olVectorLayerToCesium_def computePlainStyle_def
      sample_view_def sample_layer_def sample_feature_def)

subsection \<open>References for picking\<close>

lemma references_placed_iff:
  "references_placed lyr feat x \<longleftrightarrow> drawn_objects_bound lyr feat x \<and> containers_unbound x"
  by (induction x) auto

lemma createColoredPrimitive_bound:
  "references_placed lyr feat (createColoredPrimitive lyr feat g c w)"
  by (simp add: createColoredPrimitive_def)

lemma feature_collection_add:
  "feature_collection lyr feat acc \<Longrightarrow> references_placed lyr feat x \<Longrightarrow>
   feature_collection lyr feat (collection_add acc x)"
  by (auto simp: feature_collection_def)

lemma feature_collection_empty: "feature_collection lyr feat (PrimitiveCollection None [])"
  by (simp add: feature_collection_def)

lemma feature_collection_bound:
  "feature_collection lyr feat r \<Longrightarrow> references_placed lyr feat r"
  by (simp add: feature_collection_def)

lemma wrapFillAndOutlineGeometries_bound:
  "feature_collection lyr feat (wrapFillAndOutlineGeometries e lyr feat fg og st)"
  by (auto simp: wrapFillAndOutlineGeometries_members feature_collection_def
      createColoredPrimitive_bound)

lemma addTextStyle_bound:
  assumes "addTextStyle e lyr feat g st p = Inr res" "references_placed lyr feat p"
    "feature_collection lyr feat p \<or> (\<forall>r xs. p \<noteq> PrimitiveCollection r xs)"
  shows "feature_collection lyr feat res"
proof -
  from assms(3) show ?thesis
  proof
    assume fc: "feature_collection lyr feat p"
    then obtain xs where p: "p = PrimitiveCollection None xs"
      by (auto simp: feature_collection_def)
    from addTextStyle_collection[OF assms(1)[unfolded p]] fc p show ?thesis
      by (auto simp: feature_collection_def)
  next
    assume "\<forall>r xs. p \<noteq> PrimitiveCollection r xs"
    then have "\<And>r xs. p \<noteq> PrimitiveCollection r xs" by simp
    from addTextStyle_single[OF this assms(1)] assms(2) show ?thesis
      by (auto simp: feature_collection_def)
  qed
qed

lemma olCircleGeometryToCesium_bound:
  assumes "olCircleGeometryToCesium e lyr feat g proj st = Inr res"
  shows "feature_collection lyr feat res"
proof -
  from assms obtain g' prims where
    "addTextStyle e lyr feat g' st prims = Inr res" "feature_collection lyr feat prims"
    by (auto simp: olCircleGeometryToCesium_def Let_def wrapFillAndOutlineGeometries_bound
             split: geometry.splits)
  then show ?thesis
    using addTextStyle_bound feature_collection_bound by blast
qed

lemma olPolygonGeometryToCesium_bound:
  assumes "olPolygonGeometryToCesium e lyr feat g proj st = Inr res"
  shows "feature_collection lyr feat res"
proof -
  from assms obtain g' prims where
    "addTextStyle e lyr feat g' st prims = Inr res" "feature_collection lyr feat prims"
    by (auto simp: olPolygonGeometryToCesium_def Let_def wrapFillAndOutlineGeometries_bound
             split: geometry.splits sum.splits)
  then show ?thesis
    using addTextStyle_bound feature_collection_bound by blast
qed

lemma olLineStringGeometryToCesium_bound:
  assumes "olLineStringGeometryToCesium e lyr feat g proj st = Inr res"
  shows "feature_collection lyr feat res"
proof -
  from assms obtain g' gi where
    run: "addTextStyle e lyr feat g' st (Primitive (Some (lyr, feat)) gi) = Inr res"
    by (auto simp: olLineStringGeometryToCesium_def Let_def split: geometry.splits)
  show ?thesis
    by (rule addTextStyle_bound[OF run]) simp_all
qed

lemma context_extended_refl: "context_extended lyr feat s s"
  by (simp add: context_extended_def)

lemma context_extended_trans:
  "context_extended lyr feat s s' \<Longrightarrow> context_extended lyr feat s' s'' \<Longrightarrow>
   context_extended lyr feat s s''"
  unfolding context_extended_def
  by (elim conjE exE) (rule conjI; force)

lemma call_callback_fields:
  "ctx_billboards (call_callback cb bb s) = ctx_billboards s"
  "listeners (call_callback cb bb s) = listeners s"
  by (cases cb; cases "the cb"; simp)+

lemma reallyCreateBillboard_extends:
  "context_extended (cl_layer cl) (cl_feature cl) s (reallyCreateBillboard e cl s)"
proof (cases "isCanvas (cl_image cl) \<or> isImage (cl_image cl)")
  case True
  from reallyCreateBillboard_creates[OF this] show ?thesis
    by (simp add: context_extended_def call_callback_fields billboard_of_def)
next
  case False
  then show ?thesis
    using reallyCreateBillboard_skips[of cl e s] by (simp add: context_extended_refl)
qed

lemma olPointGeometryToCesium_bound:
  assumes "olPointGeometryToCesium e lyr feat g proj st cb s = Inr (r, s')"
  shows "(\<forall>x. r = Some x \<longrightarrow> feature_collection lyr feat x) \<and> context_extended lyr feat s s'"
proof -
  from assms obtain c ist where g: "g = Point c" and ist: "getImage st = Some ist"
    by (cases g; cases "getImage st") (auto simp: olPointGeometryToCesium_def)
  define cl where "cl = point_closure e lyr feat (Point c) proj st ist cb"
  define s1 where "s1 = (if isImage (image_getImage ist) \<and> \<not> isImageLoaded (image_getImage ist)
                then s\<lparr>listeners := listeners s @ [cl]\<rparr>
                else reallyCreateBillboard e cl s)"
  have clf: "cl_layer cl = lyr" "cl_feature cl = feat" by (simp_all add: cl_def point_closure_def)
  have ext: "context_extended lyr feat s s1"
    using reallyCreateBillboard_extends[of cl s e] clf
    by (auto simp: s1_def context_extended_def)
  from assms have run:
    "(if getText st \<noteq> None
         then (case addTextStyle e lyr feat (Point (transformTo4326 e proj c)) st
                      (Primitive None None) of
                 Inl err \<Rightarrow> Inl err
               | Inr r \<Rightarrow> Inr (Some r, s1))
         else Inr (None, s1)) = Inr (r, s')"
    unfolding s1_def cl_def
    by (simp add: g olPointGeometryToCesium_unfold[OF ist] Let_def)
  show ?thesis
  proof (cases "getText st")
    case None
    with run ext show ?thesis by auto
  next
    case (Some t)
    with run obtain x where x: "addTextStyle e lyr feat (Point (transformTo4326 e proj c)) st
                      (Primitive None None) = Inr x" "r = Some x" "s' = s1"
      by (auto split: sum.splits)
    have "feature_collection lyr feat x"
      by (rule addTextStyle_bound[OF x(1)]) simp_all
    with x ext show ?thesis by simp
  qed
qed

lemma multipoint_text_loop_bound:
  "multipoint_text_loop e lyr feat proj st cb gs acc s = Inr (r, s') \<Longrightarrow>
   feature_collection lyr feat acc \<Longrightarrow>
   feature_collection lyr feat r \<and> context_extended lyr feat s s'"
proof (induction gs arbitrary: acc s)
  case Nil
  then show ?case by (simp add: context_extended_refl)
next
  case (Cons g gs)
  from Cons.prems(1) obtain x s1 where
    step: "olPointGeometryToCesium e lyr feat g proj st cb s = Inr (x, s1)"
    by (auto split: sum.splits)
  note b = olPointGeometryToCesium_bound[OF step]
  show ?case
  proof (cases x)
    case None
    with Cons.prems(1) step have "multipoint_text_loop e lyr feat proj st cb gs acc s1 = Inr (r, s')"
      by simp
    from Cons.IH[OF this Cons.prems(2)] b show ?thesis
      using context_extended_trans by blast
  next
    case (Some y)
    with Cons.prems(1) step
    have "multipoint_text_loop e lyr feat proj st cb gs (collection_add acc y) s1 = Inr (r, s')"
      by simp
    moreover have "feature_collection lyr feat (collection_add acc y)"
      using b Some Cons.prems(2) feature_collection_add feature_collection_bound by blast
    ultimately show ?thesis
      using Cons.IH b context_extended_trans by blast
  qed
qed

lemma accumulate_bound:
  "accumulate functor gs acc = Inr r \<Longrightarrow> feature_collection lyr feat acc \<Longrightarrow>
   (\<And>g x. functor g = Inr x \<Longrightarrow> feature_collection lyr feat x) \<Longrightarrow>
   feature_collection lyr feat r"
proof (induction gs arbitrary: acc)
  case Nil
  then show ?case by simp
next
  case (Cons g gs)
  from Cons.prems(1) obtain x where x: "functor g = Inr x"
    "accumulate functor gs (collection_add acc x) = Inr r"
    by (auto split: sum.splits)
  have "feature_collection lyr feat (collection_add acc x)"
    using Cons.prems(2,3) x(1) feature_collection_add feature_collection_bound by blast
  from Cons.IH[OF x(2) this Cons.prems(3)] show ?case .
qed

lemma olMultiGeometryToCesium_bound:
  assumes "olMultiGeometryToCesium e lyr feat g proj st cb s = Inr (r, s')"
  shows "(\<forall>x. r = Some x \<longrightarrow> feature_collection lyr feat x) \<and> context_extended lyr feat s s'"
proof (cases g)
  case (MultiPoint cs)
  show ?thesis
  proof (cases "getText st")
    case None
    with assms MultiPoint show ?thesis
      by (auto simp: olMultiGeometryToCesium_def Let_def context_extended_refl split: if_splits)
  next
    case (Some t)
    with assms MultiPoint obtain x where
      "multipoint_text_loop e lyr feat proj st cb (map Point cs) (PrimitiveCollection None []) s
         = Inr (x, s')" "r = Some x"
      by (auto simp: olMultiGeometryToCesium_def Let_def split: sum.splits)
    with multipoint_text_loop_bound[OF this(1) feature_collection_empty] show ?thesis by simp
  qed
next
  case (MultiLineString ls)
  with assms obtain x where
    acc: "accumulate (\<lambda>g. olLineStringGeometryToCesium e lyr feat g proj st)
            (map LineString ls) (PrimitiveCollection None []) = Inr x" and r: "r = Some x" "s' = s"
    by (auto simp: olMultiGeometryToCesium_def split: sum.splits)
  have "feature_collection lyr feat x"
    by (rule accumulate_bound[OF acc feature_collection_empty])
       (rule olLineStringGeometryToCesium_bound)
  with r show ?thesis by (simp add: context_extended_refl)
next
  case (MultiPolygon ps)
  with assms obtain x where
    acc: "accumulate (\<lambda>g. olPolygonGeometryToCesium e lyr feat g proj st)
            (map Polygon ps) (PrimitiveCollection None []) = Inr x" and r: "r = Some x" "s' = s"
    by (auto simp: olMultiGeometryToCesium_def split: sum.splits)
  have "feature_collection lyr feat x"
    by (rule accumulate_bound[OF acc feature_collection_empty])
       (rule olPolygonGeometryToCesium_bound)
  with r show ?thesis by (simp add: context_extended_refl)
qed (use assms in \<open>simp_all add: olMultiGeometryToCesium_def\<close>)

lemma olFeatureToCesium_geom_bound:
  "olFeatureToCesium_geom e lyr feat st g s = Inr (r, s') \<Longrightarrow>
     (\<forall>x. r = Some x \<longrightarrow> feature_collection lyr feat x) \<and> context_extended lyr feat s s'"
  and olFeatureToCesium_members_bound:
  "olFeatureToCesium_members e lyr feat st gs acc s = Inr (r', s') \<Longrightarrow>
     feature_collection lyr feat acc \<Longrightarrow>
     feature_collection lyr feat r' \<and> context_extended lyr feat s s'"
proof (induction e lyr feat st g s and e lyr feat st gs acc s arbitrary: r s' and r' s'
       rule: olFeatureToCesium_geom_olFeatureToCesium_members.induct)
  case (1 e lyr feat st gs s)
  from "1.prems" obtain x where
    x: "olFeatureToCesium_members e lyr feat st gs (PrimitiveCollection None []) s = Inr (x, s')"
       "r = Some x"
    by (auto split: sum.splits)
  from "1.IH"[OF x(1) feature_collection_empty] x(2) show ?case by simp
next
  case (2 e lyr feat st c s)
  then show ?case using olPointGeometryToCesium_bound by simp
next
  case (3 e lyr feat st c rad s)
  then show ?case
    by (auto simp: context_extended_refl split: sum.splits dest: olCircleGeometryToCesium_bound)
next
  case (4 e lyr feat st cs s)
  then show ?case
    by (auto simp: context_extended_refl split: sum.splits dest: olLineStringGeometryToCesium_bound)
next
  case (5 e lyr feat st rs s)
  then show ?case
    by (auto simp: context_extended_refl split: sum.splits dest: olPolygonGeometryToCesium_bound)
next
  case (6 e lyr feat st cs s)
  then show ?case using olMultiGeometryToCesium_bound by simp
next
  case (7 e lyr feat st ls s)
  then show ?case using olMultiGeometryToCesium_bound by simp
next
  case (8 e lyr feat st ps s)
  then show ?case using olMultiGeometryToCesium_bound by simp
next
  case (9 e lyr feat st cs s)
  then show ?case by simp
next
  case (10 e lyr feat st primitives s)
  then show ?case by (simp add: context_extended_refl)
next
  case (11 e lyr feat st g gs primitives s)
  from "11.prems"(1) obtain x s1 where
    step: "olFeatureToCesium_geom e lyr feat st g s = Inr (x, s1)"
    by (auto split: sum.splits)
  note b = "11.IH"(1)[OF step]
  show ?case
  proof (cases x)
    case None
    with "11.prems"(1) step
    have rest: "olFeatureToCesium_members e lyr feat st gs primitives s1 = Inr (r', s')"
      by simp
    from "11.IH"(2)[OF step refl None rest "11.prems"(2)] b show ?thesis
      using context_extended_trans by blast
  next
    case (Some y)
    with "11.prems"(1) step
    have rest: "olFeatureToCesium_members e lyr feat st gs (collection_add primitives y) s1
                  = Inr (r', s')"
      by simp
    have "feature_collection lyr feat (collection_add primitives y)"
      using b Some "11.prems"(2) feature_collection_add feature_collection_bound by blast
    from "11.IH"(3)[OF step refl Some rest this] b show ?thesis
      using context_extended_trans by blast
  qed
qed

text \<open>
  C9, as the code has it. Whatever \<open>olFeatureToCesium\<close> returns for a feature is a
  primitive collection. In it, at every depth, each primitive that has a geometry and
  each label carries the reference to the layer and the feature, and no primitive
  collection and no label collection, the returned one included, carries a reference.
  Every billboard the call adds to the context carries the reference, and every listener
  it leaves pending is for the same layer and feature, so the billboard it creates later
  carries it too.
\<close>

theorem drawn_objects_carry_picking_reference:
  assumes "olFeatureToCesium e lyr feat st s opt_geom = Inr (r, s')"
  shows "(\<forall>x. r = Some x \<longrightarrow>
            pickingReference x = None \<and> (\<exists>xs. x = PrimitiveCollection None xs)
            \<and> drawn_objects_bound lyr feat x \<and> containers_unbound x)
       \<and> (\<exists>bbs. ctx_billboards s' = ctx_billboards s @ bbs
              \<and> (\<forall>b\<in>set bbs. pickingReference b = Some (lyr, feat)))
       \<and> (\<exists>ls. listeners s' = listeners s @ ls
              \<and> (\<forall>cl\<in>set ls. cl_layer cl = lyr \<and> cl_feature cl = feat
                     \<and> pickingReference (billboard_of e cl) = Some (lyr, feat)))"
proof -
  have fc: "(\<forall>x. r = Some x \<longrightarrow> feature_collection lyr feat x)
            \<and> context_extended lyr feat s s'"
  proof (cases "case opt_geom of Some g \<Rightarrow> Some g | None \<Rightarrow> getGeometry feat")
    case None
    with assms show ?thesis by (auto simp: olFeatureToCesium_def context_extended_refl)
  next
    case (Some g)
    with assms have "olFeatureToCesium_geom e lyr feat st g s = Inr (r, s')"
      by (simp add: olFeatureToCesium_def)
    from olFeatureToCesium_geom_bound[OF this] show ?thesis .
  qed
  have a: "pickingReference x = None \<and> (\<exists>xs. x = PrimitiveCollection None xs)
            \<and> drawn_objects_bound lyr feat x \<and> containers_unbound x" if "r = Some x" for x
  proof -
    from fc that have "feature_collection lyr feat x" by simp
    then obtain xs where "x = PrimitiveCollection None xs" "references_placed lyr feat x"
      by (auto simp: feature_collection_def)
    then show ?thesis using references_placed_iff[of lyr feat x] by auto
  qed
  from fc have b: "(\<exists>bbs. ctx_billboards s' = ctx_billboards s @ bbs
              \<and> (\<forall>b\<in>set bbs. pickingReference b = Some (lyr, feat)))
       \<and> (\<exists>ls. listeners s' = listeners s @ ls
              \<and> (\<forall>cl\<in>set ls. cl_layer cl = lyr \<and> cl_feature cl = feat
                     \<and> pickingReference (billboard_of e cl) = Some (lyr, feat)))"
    unfolding context_extended_def by (auto simp: billboard_of_def)
  from a b show ?thesis by blast
qed

text \<open>
  C9 as it is stated fails for the collections and for the placeholder primitive. A
  circle with a fill and a stroke is returned as a primitive collection without
  \<open>olLayer\<close> and \<open>olFeature\<close>; a point with a text is returned as a collection whose first
  member is the \<open>new Cesium.Primitive()\<close> that was never given a reference, and whose
  label sits in a label collection without one.
\<close>

theorem collections_carry_no_picking_reference:
  "olFeatureToCesium sample_env sample_layer sample_feature sample_style sample_state
      (Some (Circle [Num 1, Num 1] (Num 3))) =
     Inr (Some (PrimitiveCollection None
        [createColoredPrimitive sample_layer sample_feature
           (CircleGeometry (Cartesian3 (Num 2) (Num 2) (Num 0)) (Num 6) (Num 0))
           (Color (Num 1) (Num 1) (Num 1) (Num 1)) None,
         createColoredPrimitive sample_layer sample_feature
           (CircleOutlineGeometry (Cartesian3 (Num 2) (Num 2) (Num 0)) (Num 6) (Num 0) (Num 0))
           (Color (Num 1) (Num 1) (Num 1) (Num 1)) (Some (Num 8))]), sample_state)
   \<and> \<not> every_object_bound sample_layer sample_feature
        (PrimitiveCollection None
          [createColoredPrimitive sample_layer sample_feature
             (CircleGeometry (Cartesian3 (Num 2) (Num 2) (Num 0)) (Num 6) (Num 0))
             (Color (Num 1) (Num 1) (Num 1) (Num 1)) None,
           createColoredPrimitive sample_layer sample_feature
             (CircleOutlineGeometry (Cartesian3 (Num 2) (Num 2) (Num 0)) (Num 6) (Num 0) (Num 0))
             (Color (Num 1) (Num 1) (Num 1) (Num 1)) (Some (Num 8))])
   \<and> map_sum id (map_option (map pickingReference \<circ> collection_members) \<circ> fst)
        (olFeatureToCesium sample_env sample_layer sample_feature sample_style_noimage
           sample_state (Some (Point [Num 1, Num 2])))
      = Inr (Some [None, None])"
proof -
  have a: "olFeatureToCesium sample_env sample_layer sample_feature sample_style sample_state
      (Some (Circle [Num 1, Num 1] (Num 3))) =
     Inr (Some (PrimitiveCollection None
        [createColoredPrimitive sample_layer sample_feature
           (CircleGeometry (Cartesian3 (Num 2) (Num 2) (Num 0)) (Num 6) (Num 0))
           (Color (Num 1) (Num 1) (Num 1) (Num 1)) None,
         createColoredPrimitive sample_layer sample_feature
           (CircleOutlineGeometry (Cartesian3 (Num 2) (Num 2) (Num 0)) (Num 6) (Num 0) (Num 0))
           (Color (Num 1) (Num 1) (Num 1) (Num 1)) (Some (Num 8))]), sample_state)"
    by (simp add: olFeatureToCesium_def olCircleGeometryToCesium_def
        wrapFillAndOutlineGeometries_def addTextStyle_def
        extractColorFromOlStyle_def extractLineWidthFromOlStyle_def sqrt_36
        sample_env_def sample_style_def sample_stroke_def sample_fill_def Let_def)
  have b: "map_sum id (map_option (map pickingReference \<circ> collection_members) \<circ> fst)
        (olFeatureToCesium sample_env sample_layer sample_feature sample_style_noimage
           sample_state (Some (Point [Num 1, Num 2])))
      = Inr (Some [None, None])"
    by (simp add: olFeatureToCesium_def olPointGeometryToCesium_def addTextStyle_def
        olGeometry4326TextPartToCesium_def textAlignToOrigin_def textBaselineToOrigin_def
        reallyCreateBillboard_def sample_style_noimage_def sample_null_icon_def
        sample_text_def sample_env_def Let_def)
  from a b show ?thesis by simp
qed

theorem drawn_objects_carry_picking_reference_witness:
  "olFeatureToCesium sample_env sample_layer sample_feature sample_style_icon sample_state
        (Some (Point [Num 1, Num 2])) =
       Inr (None, sample_state\<lparr>
         ctx_billboards :=
           [billboard_of sample_env
              (point_closure sample_env sample_layer sample_feature (Point [Num 1, Num 2])
                 (Projection ''EPSG:4326'') sample_style_icon sample_loaded_icon
                 sample_callback)],
         featureToCesiumMap :=
           [7 \<mapsto> billboard_of sample_env
              (point_closure sample_env sample_layer sample_feature (Point [Num 1, Num 2])
                 (Projection ''EPSG:4326'') sample_style_icon sample_loaded_icon
                 sample_callback)]\<rparr>)
   \<and> pickingReference (billboard_of sample_env
              (point_closure sample_env sample_layer sample_feature (Point [Num 1, Num 2])
                 (Projection ''EPSG:4326'') sample_style_icon sample_loaded_icon
                 sample_callback)) = Some (sample_layer, sample_feature)
   \<and> olFeatureToCesium sample_env sample_layer sample_feature sample_style sample_state
      (Some (Circle [Num 1, Num 1] (Num 3))) =
     Inr (Some (PrimitiveCollection None
        [createColoredPrimitive sample_layer sample_feature
           (CircleGeometry (Cartesian3 (Num 2) (Num 2) (Num 0)) (Num 6) (Num 0))
           (Color (Num 1) (Num 1) (Num 1) (Num 1)) None,
         createColoredPrimitive sample_layer sample_feature
           (CircleOutlineGeometry (Cartesian3 (Num 2) (Num 2) (Num 0)) (Num 6) (Num 0) (Num 0))
           (Color (Num 1) (Num 1) (Num 1) (Num 1)) (Some (Num 8))]), sample_state)
   \<and> drawn_objects_bound sample_layer sample_feature
        (PrimitiveCollection None
          [createColoredPrimitive sample_layer sample_feature
             (CircleGeometry (Cartesian3 (Num 2) (Num 2) (Num 0)) (Num 6) (Num 0))
             (Color (Num 1) (Num 1) (Num 1) (Num 1)) None,
           createColoredPrimitive sample_layer sample_feature
             (CircleOutlineGeometry (Cartesian3 (Num 2) (Num 2) (Num 0)) (Num 6) (Num 0) (Num 0))
             (Color (Num 1) (Num 1) (Num 1) (Num 1)) (Some (Num 8))])
   \<and> containers_unbound
        (PrimitiveCollection None
          [createColoredPrimitive sample_layer sample_feature
             (CircleGeometry (Cartesian3 (Num 2) (Num 2) (Num 0)) (Num 6) (Num 0))
             (Color (Num 1) (Num 1) (Num 1) (Num 1)) None,
           createColoredPrimitive sample_layer sample_feature
             (CircleOutlineGeometry (Cartesian3 (Num 2) (Num 2) (Num 0)) (Num 6) (Num 0) (Num 0))
             (Color (Num 1) (Num 1) (Num 1) (Num 1)) (Some (Num 8))])"
proof -
  define bb where "bb = billboard_of sample_env
              (point_closure sample_env sample_layer sample_feature (Point [Num 1, Num 2])
                 (Projection ''EPSG:4326'') sample_style_icon sample_loaded_icon
                 sample_callback)"
  have run: "olFeatureToCesium sample_env sample_layer sample_feature sample_style_icon
        sample_state (Some (Point [Num 1, Num 2])) =
       Inr (None, sample_state\<lparr>ctx_billboards := [bb], featureToCesiumMap := [7 \<mapsto> bb]\<rparr>)"
    unfolding bb_def
    by (simp add: olFeatureToCesium_def olPointGeometryToCesium_def reallyCreateBillboard_def
        csAddBillboard_def billboard_of_def point_closure_def sample_callback_def
        sample_style_icon_def sample_loaded_icon_def sample_state_def sample_feature_def Let_def)
  from drawn_objects_carry_picking_reference[OF run]
  obtain bbs where "ctx_billboards (sample_state\<lparr>ctx_billboards := [bb],
                       featureToCesiumMap := [7 \<mapsto> bb]\<rparr>) = ctx_billboards sample_state @ bbs"
    "\<forall>b\<in>set bbs. pickingReference b = Some (sample_layer, sample_feature)"
    by blast
  then have ref: "pickingReference bb = Some (sample_layer, sample_feature)"
    by (auto simp: sample_state_def)
  have run2: "olFeatureToCesium sample_env sample_layer sample_feature sample_style sample_state
      (Some (Circle [Num 1, Num 1] (Num 3))) =
     Inr (Some (PrimitiveCollection None
        [createColoredPrimitive sample_layer sample_feature
           (CircleGeometry (Cartesian3 (Num 2) (Num 2) (Num 0)) (Num 6) (Num 0))
           (Color (Num 1) (Num 1) (Num 1) (Num 1)) None,
         createColoredPrimitive sample_layer sample_feature
           (CircleOutlineGeometry (Cartesian3 (Num 2) (Num 2) (Num 0)) (Num 6) (Num 0) (Num 0))
           (Color (Num 1) (Num 1) (Num 1) (Num 1)) (Some (Num 8))]), sample_state)"
    by (simp add: olFeatureToCesium_def olCircleGeometryToCesium_def
        wrapFillAndOutlineGeometries_def addTextStyle_def
        extractColorFromOlStyle_def extractLineWidthFromOlStyle_def sqrt_36
        sample_env_def sample_style_def sample_stroke_def sample_fill_def Let_def)
  from drawn_objects_carry_picking_reference[OF run2]
  have bound: "drawn_objects_bound sample_layer sample_feature
        (PrimitiveCollection None
          [createColoredPrimitive sample_layer sample_feature
             (CircleGeometry (Cartesian3 (Num 2) (Num 2) (Num 0)) (Num 6) (Num 0))
             (Color (Num 1) (Num 1) (Num 1) (Num 1)) None,
           createColoredPrimitive sample_layer sample_feature
             (CircleOutlineGeometry (Cartesian3 (Num 2) (Num 2) (Num 0)) (Num 6) (Num 0) (Num 0))
             (Color (Num 1) (Num 1) (Num 1) (Num 1)) (Some (Num 8))])
      \<and> containers_unbound
        (PrimitiveCollection None
          [createColoredPrimitive sample_layer sample_feature
             (CircleGeometry (Cartesian3 (Num 2) (Num 2) (Num 0)) (Num 6) (Num 0))
             (Color (Num 1) (Num 1) (Num 1) (Num 1)) None,
           createColoredPrimitive sample_layer sample_feature
             (CircleOutlineGeometry (Cartesian3 (Num 2) (Num 2) (Num 0)) (Num 6) (Num 0) (Num 0))
             (Color (Num 1) (Num 1) (Num 1) (Num 1)) (Some (Num 8))])"
    by blast
  from run ref run2 bound show ?thesis unfolding bb_def by blast
qed

end
